theory Spec2Isabelle
  imports Complex_Main
begin

section \<open>Python values shared by both modules\<close>

text \<open>
  Exceptions of the Python code are values. \<open>ValueError\<close> is raised by \<open>map_pixels\<close>
  itself, by unpacking a tuple of the wrong length and by a dropout probability out of
  range; \<open>AssertionError\<close> by the \<open>assert\<close> statements of \<open>Transformer.forward\<close> and of
  the attention module's constructor; \<open>AttributeError\<close> by a method call on \<open>None\<close>;
  \<open>TypeError\<close> where \<open>None\<close> is used as a tensor or called; \<open>IndexError\<close> by a tuple
  index out of range and by \<open>pop\<close> on an empty list; \<open>TorchError\<close> stands for the
  exception of a torch operation that rejects the shapes of its operands.
\<close>

datatype error =
    ValueError string
  | TypeError
  | AttributeError
  | IndexError
  | AssertionError
  | ZeroDivisionError
  | TorchError

definition bnd :: "error + 'a \<Rightarrow> ('a \<Rightarrow> error + 'b) \<Rightarrow> error + 'b" where
  "bnd m f = (case m of Inl e \<Rightarrow> Inl e | Inr v \<Rightarrow> f v)"

section \<open>transforms/image\_masking\_transform.py\<close>

subsection \<open>map\_pixels\<close>

text \<open>
  The element types of torch. \<open>torch.float\<close> is an alias of \<open>torch.float32\<close>,
  \<open>torch.double\<close> of \<open>torch.float64\<close>, \<open>torch.half\<close> of \<open>torch.float16\<close>.
\<close>

datatype dtype =
    Float16 | BFloat16 | Float32 | Float64
  | Complex64 | Complex128
  | UInt8 | Int8 | Int16 | Int32 | Int64
  | Bool

definition torch_float :: dtype where
  "torch_float = Float32"

fun is_integer_dtype :: "dtype \<Rightarrow> bool" where
  "is_integer_dtype UInt8 = True"
| "is_integer_dtype Int8 = True"
| "is_integer_dtype Int16 = True"
| "is_integer_dtype Int32 = True"
| "is_integer_dtype Int64 = True"
| "is_integer_dtype _ = False"

fun is_floating_dtype :: "dtype \<Rightarrow> bool" where
  "is_floating_dtype Float16 = True"
| "is_floating_dtype BFloat16 = True"
| "is_floating_dtype Float32 = True"
| "is_floating_dtype Float64 = True"
| "is_floating_dtype _ = False"

text \<open>
  An image tensor as \<open>map_pixels\<close> sees it: its element type, its shape and its elements
  in row-major order. The elements are reals: the rounding of float32 arithmetic is not
  modelled, and no statement below depends on the mapped values.
\<close>

record image_tensor =
  dtype :: dtype
  dims :: "nat list"
  elems :: "real list"

definition LOGIT_LAPLACE_EPS :: real where
  "LOGIT_LAPLACE_EPS = 0.1"

definition map_pixels :: "image_tensor \<Rightarrow> error + image_tensor" where
  "map_pixels x =
     (if dtype x \<noteq> torch_float then Inl (ValueError ''expected input to have type float'')
      else Inr (x\<lparr>elems := map (\<lambda>v. (1 - 2 * LOGIT_LAPLACE_EPS) * v + LOGIT_LAPLACE_EPS) (elems x)\<rparr>))"

subsection \<open>MaskingGenerator\<close>

text \<open>
  The generator's configuration, as \<open>__init__\<close> stores it. The height, the width and
  the patch budget \<open>num_masking_patches\<close> are counts, so naturals. \<open>min_aspect\<close>,
  \<open>max_aspect\<close> and \<open>log_aspect_ratio\<close> are floats that only feed the random choice of a
  block's side lengths; see \<open>draw\<close> below.
\<close>

record MaskingGenerator =
  height :: nat
  width :: nat
  num_patches :: nat
  num_masking_patches :: nat
  min_num_patches :: int
  max_num_patches :: int

text \<open>
  \<open>input_size\<close> is a pair, or one number that stands for the pair of it with itself
  (\<open>Inl\<close>); \<open>max_num_patches\<close> is optional and defaults to \<open>num_masking_patches\<close>.
\<close>

definition MaskingGenerator_init ::
  "nat + nat \<times> nat \<Rightarrow> nat \<Rightarrow> int \<Rightarrow> int option \<Rightarrow> MaskingGenerator" where
  "MaskingGenerator_init input_size nmp min_np max_np =
     (let input_size = (case input_size of Inl n \<Rightarrow> (n, n) | Inr hw \<Rightarrow> hw) in
      \<lparr> height = fst input_size, width = snd input_size,
        num_patches = fst input_size * snd input_size,
        num_masking_patches = nmp,
        min_num_patches = min_np,
        max_num_patches = (case max_np of None \<Rightarrow> int nmp | Some m \<Rightarrow> m) \<rparr>)"

definition get_shape :: "MaskingGenerator \<Rightarrow> nat \<times> nat" where
  "get_shape self = (height self, width self)"

text \<open>
  The global random source is an infinite tape of draws, one entry per placement attempt,
  and the position on the tape is threaded through the calls. One attempt of \<open>_mask\<close>
  first draws \<open>target_area = random.uniform(min_num_patches, max_mask_patches)\<close>; the
  tape holds the 53 random bits \<open>r_area\<close> behind it. The aspect ratio is a value of
  \<open>math.exp\<close>, so it is positive, and the two calls of \<open>math.sqrt\<close> get a negative
  argument, and raise \<open>ValueError\<close>, exactly when \<open>target_area\<close> is negative. Otherwise
  \<open>h\<close> and \<open>w\<close> are the rounded square roots, so naturals; their computation through
  \<open>exp\<close>, \<open>sqrt\<close> and \<open>round\<close> is not modelled, the tape holds the results \<open>d_h\<close> and
  \<open>d_w\<close>. \<open>r_top\<close> and \<open>r_left\<close> are the raw numbers from which \<open>random.randint\<close> picks
  the offsets; an attempt whose block does not fit ignores them. Numbers are reals: the
  rounding, overflow and underflow of floats are not modelled.
\<close>

record draw =
  r_area :: nat
  d_h :: nat
  d_w :: nat
  r_top :: nat
  r_left :: nat

text \<open>
  \<open>random.random()\<close> is a multiple of \<open>2 ** -53\<close> below 1, and \<open>random.uniform(a, b)\<close>
  is \<open>a + (b - a) * random.random()\<close>.
\<close>

definition random_random :: "nat \<Rightarrow> real" where
  "random_random r = real (r mod 2 ^ 53) / 2 ^ 53"

definition random_uniform :: "real \<Rightarrow> real \<Rightarrow> nat \<Rightarrow> real" where
  "random_uniform a b r = a + (b - a) * random_random r"

text \<open>\<open>random.randint(a, b)\<close> is uniform on the closed range from \<open>a\<close> to \<open>b\<close>.\<close>

definition randint :: "nat \<Rightarrow> nat \<Rightarrow> nat \<Rightarrow> nat" where
  "randint a b r = a + r mod (b - a + 1)"

type_synonym grid = "int list list"

text \<open>
  \<open>np.zeros(shape, dtype=np.int)\<close>: an array of integer zeros (\<open>np.int\<close> is the builtin
  \<open>int\<close> in the NumPy releases that have the name), as a list of rows.
\<close>

definition np_zeros :: "nat \<times> nat \<Rightarrow> grid" where
  "np_zeros shp = replicate (fst shp) (replicate (snd shp) 0)"

text \<open>\<open>mask[top : top + h, left : left + w].sum()\<close>; a slice is clipped to the array.\<close>

definition block_sum :: "grid \<Rightarrow> nat \<Rightarrow> nat \<Rightarrow> nat \<Rightarrow> nat \<Rightarrow> int" where
  "block_sum msk top' h left' w =
     sum_list (map (\<lambda>row. sum_list (take w (drop left' row))) (take h (drop top' msk)))"

text \<open>The body of the two nested \<open>for\<close> loops, on the pair of the mask and \<open>delta\<close>.\<close>

definition fill_cell :: "nat \<times> nat \<Rightarrow> grid \<times> nat \<Rightarrow> grid \<times> nat" where
  "fill_cell ij st =
     (case ij of (i, j) \<Rightarrow> case st of (msk, delta) \<Rightarrow>
        if msk ! i ! j = 0 then (msk[i := (msk ! i)[j := 1]], delta + 1)
        else (msk, delta))"

definition fill_block :: "grid \<Rightarrow> nat \<Rightarrow> nat \<Rightarrow> nat \<Rightarrow> nat \<Rightarrow> nat \<Rightarrow> grid \<times> nat" where
  "fill_block msk delta top' h left' w =
     fold fill_cell (List.product [top'..<top' + h] [left'..<left' + w]) (msk, delta)"

text \<open>
  \<open>_mask\<close> (here \<open>mask_fn\<close>): the loop \<open>for _attempt in range(10)\<close>, by recursion on
  the attempts that are left. The result is the exception of \<open>math.sqrt\<close>, or the
  mutated mask, \<open>delta\<close> and the new position on the tape. \<open>delta\<close> is 0 at the head
  of every attempt, since a positive \<open>delta\<close> leaves the loop.
\<close>

fun mask_attempts ::
  "MaskingGenerator \<Rightarrow> (nat \<Rightarrow> draw) \<Rightarrow> nat \<Rightarrow> nat \<Rightarrow> grid \<Rightarrow> int
   \<Rightarrow> error + grid \<times> nat \<times> nat" where
  "mask_attempts self rnd 0 k msk max_mask_patches = Inr (msk, 0, k)"
| "mask_attempts self rnd (Suc n) k msk max_mask_patches =
     (let target_area = random_uniform (real_of_int (min_num_patches self))
                          (real_of_int max_mask_patches) (r_area (rnd k)) in
      if target_area < 0 then Inl (ValueError ''math domain error'')
      else
        (let h = d_h (rnd k); w = d_w (rnd k) in
         if w < width self \<and> h < height self then
           (let top' = randint 0 (height self - h) (r_top (rnd k));
                left' = randint 0 (width self - w) (r_left (rnd k));
                num_masked = block_sum msk top' h left' w in
            if 0 < int (h * w) - num_masked \<and> int (h * w) - num_masked \<le> max_mask_patches then
              (case fill_block msk 0 top' h left' w of (msk', delta) \<Rightarrow>
                 if delta > 0 then Inr (msk', delta, Suc k)
                 else mask_attempts self rnd n (Suc k) msk' max_mask_patches)
            else mask_attempts self rnd n (Suc k) msk max_mask_patches)
         else mask_attempts self rnd n (Suc k) msk max_mask_patches))"

definition mask_fn ::
  "MaskingGenerator \<Rightarrow> (nat \<Rightarrow> draw) \<Rightarrow> nat \<Rightarrow> grid \<Rightarrow> int \<Rightarrow> error + grid \<times> nat \<times> nat" where
  "mask_fn self rnd k msk max_mask_patches = mask_attempts self rnd 10 k msk max_mask_patches"

text \<open>
  The \<open>while\<close> loop of \<open>__call__\<close>. Whether it ends is a claim, so the loop is a partial
  function: \<open>None\<close> stands for a loop that never returns, \<open>Some (Inl e)\<close> for a call that
  raises, \<open>Some (Inr (mask, k))\<close> for one that returns the mask.
\<close>

partial_function (option) call_loop ::
  "MaskingGenerator \<Rightarrow> (nat \<Rightarrow> draw) \<Rightarrow> nat \<Rightarrow> grid \<Rightarrow> nat \<Rightarrow> (error + grid \<times> nat) option" where
  "call_loop self rnd k msk mask_count =
     (if mask_count < num_masking_patches self then
        (let max_mask_patches =
               min (int (num_masking_patches self - mask_count)) (max_num_patches self) in
         case mask_fn self rnd k msk max_mask_patches of
           Inl e \<Rightarrow> Some (Inl e)
         | Inr (msk', delta, k') \<Rightarrow>
             if delta = 0 then Some (Inr (msk', k'))
             else call_loop self rnd k' msk' (mask_count + delta))
      else Some (Inr (msk, k)))"

declare call_loop.simps [code]

definition MaskingGenerator_call ::
  "MaskingGenerator \<Rightarrow> (nat \<Rightarrow> draw) \<Rightarrow> nat \<Rightarrow> (error + grid \<times> nat) option" where
  "MaskingGenerator_call self rnd k = call_loop self rnd k (np_zeros (get_shape self)) 0"


section \<open>models/mdetr.py: tensors and torch operations\<close>

text \<open>
  A tensor of \<open>mdetr.py\<close> is its shape together with a symbolic value: the expression
  that computed it, over the input tensors. Element types and floating-point numbers are
  not modelled. A symbolic value names the operation and, for a module, the attribute
  through which the code calls it (\<open>self.norm1\<close>, \<open>self.self_attn\<close>; \<open>Norm0\<close> and
  \<open>Dropout0\<close> stand for \<open>self.norm\<close> and \<open>self.dropout\<close>); the parameters of a module
  are not part of it, so the copies that \<open>_get_clones\<close> makes of one layer have the same
  symbolic operations.
\<close>

datatype attr =
    Self_attn | Cross_attn_image
  | Linear1 | Linear2
  | Dropout0 | Dropout1 | Dropout2 | Dropout3 | Dropout4
  | Norm0 | Norm1 | Norm2 | Norm3 | Norm4
  | Activation

datatype fn =
    Flatten nat
  | Permute "nat list"
  | Unsqueeze nat
  | Repeat "nat list"
  | Zeros_like
  | Add
  | Scale real
  | Cat nat
  | Slice_from_end nat
  | Stack
  | Transpose nat nat
  | Call attr

datatype sym = Input string | App fn "sym list"

record tensor =
  shape :: "nat list"
  val :: sym

text \<open>
  The errors of torch: an operation that rejects the shapes of its operands raises
  \<open>TorchError\<close> (a \<open>RuntimeError\<close>, an \<open>IndexError\<close> for a dimension out of range, or
  one of torch's own checks; they are not told apart). \<open>None\<close> where a tensor is
  expected is a \<open>TypeError\<close>.
\<close>

definition flatten :: "nat \<Rightarrow> tensor \<Rightarrow> error + tensor" where
  "flatten start_dim x =
     (if start_dim < length (shape x) then
        Inr \<lparr>shape = take start_dim (shape x) @ [prod_list (drop start_dim (shape x))],
             val = App (Flatten start_dim) [val x]\<rparr>
      else if shape x = [] \<and> start_dim = 0 then
        Inr \<lparr>shape = [1], val = App (Flatten start_dim) [val x]\<rparr>
      else Inl TorchError)"

definition permute :: "nat list \<Rightarrow> tensor \<Rightarrow> error + tensor" where
  "permute ds x =
     (if length ds = length (shape x) \<and> distinct ds \<and> (\<forall>d \<in> set ds. d < length (shape x)) then
        Inr \<lparr>shape = map (\<lambda>d. shape x ! d) ds, val = App (Permute ds) [val x]\<rparr>
      else Inl TorchError)"

definition unsqueeze :: "nat \<Rightarrow> tensor \<Rightarrow> error + tensor" where
  "unsqueeze d x =
     (if d \<le> length (shape x) then
        Inr \<lparr>shape = take d (shape x) @ [1] @ drop d (shape x), val = App (Unsqueeze d) [val x]\<rparr>
      else Inl TorchError)"

text \<open>\<open>x.repeat(*sizes)\<close>: missing leading dimensions of \<open>x\<close> count as 1.\<close>

definition repeat :: "nat list \<Rightarrow> tensor \<Rightarrow> error + tensor" where
  "repeat sizes x =
     (if length (shape x) \<le> length sizes then
        Inr \<lparr>shape = map2 (*) sizes (replicate (length sizes - length (shape x)) 1 @ shape x),
             val = App (Repeat sizes) [val x]\<rparr>
      else Inl TorchError)"

definition zeros_like :: "tensor option \<Rightarrow> error + tensor" where
  "zeros_like x =
     (case x of None \<Rightarrow> Inl TypeError
      | Some t \<Rightarrow> Inr \<lparr>shape = shape t, val = App Zeros_like [val t]\<rparr>)"

text \<open>
  Broadcasting, on the reversed shapes: trailing dimensions are aligned, and two sizes
  fit when they are equal or one of them is 1.
\<close>

fun broadcast_rev :: "nat list \<Rightarrow> nat list \<Rightarrow> nat list option" where
  "broadcast_rev [] ys = Some ys"
| "broadcast_rev xs [] = Some xs"
| "broadcast_rev (x # xs) (y # ys) =
     (if x = y \<or> y = 1 then map_option ((#) x) (broadcast_rev xs ys)
      else if x = 1 then map_option ((#) y) (broadcast_rev xs ys)
      else None)"

definition broadcast_shapes :: "nat list \<Rightarrow> nat list \<Rightarrow> nat list option" where
  "broadcast_shapes a b = map_option rev (broadcast_rev (rev a) (rev b))"

text \<open>\<open>a + b\<close>, where either operand may be \<open>None\<close>.\<close>

definition add :: "tensor option \<Rightarrow> tensor option \<Rightarrow> error + tensor" where
  "add a b =
     (case (a, b) of
        (Some x, Some y) \<Rightarrow>
          (case broadcast_shapes (shape x) (shape y) of
             None \<Rightarrow> Inl TorchError
           | Some s \<Rightarrow> Inr \<lparr>shape = s, val = App Add [val x, val y]\<rparr>)
      | _ \<Rightarrow> Inl TypeError)"

text \<open>\<open>c * x\<close> for a Python float \<open>c\<close>.\<close>

definition scale :: "real \<Rightarrow> tensor option \<Rightarrow> error + tensor" where
  "scale c x =
     (case x of None \<Rightarrow> Inl TypeError
      | Some t \<Rightarrow> Inr \<lparr>shape = shape t, val = App (Scale c) [val t]\<rparr>)"

text \<open>
  \<open>torch.cat(tensors, dim)\<close>: an element \<open>None\<close> is a \<open>TypeError\<close>. The tensors must
  agree in every dimension but \<open>dim\<close> (here \<open>axis\<close>); torch skips one-dimensional empty tensors.
\<close>

definition cat :: "tensor option list \<Rightarrow> nat \<Rightarrow> error + tensor" where
  "cat tensors axis =
     (if None \<in> set tensors then Inl TypeError
      else
        (let ts = map the tensors;
             v = App (Cat axis) (map val ts);
             ss = filter (\<lambda>s. s \<noteq> [0]) (map shape ts)
         in case ss of
              [] \<Rightarrow> (if ts = [] then Inl TorchError else Inr \<lparr>shape = [0], val = v\<rparr>)
            | s # rest \<Rightarrow>
                if axis < length s
                   \<and> (\<forall>r \<in> set rest. length r = length s
                          \<and> take axis r = take axis s \<and> drop (Suc axis) r = drop (Suc axis) s)
                then Inr \<lparr>shape = s[axis := sum_list (map (\<lambda>r. r ! axis) ss)], val = v\<rparr>
                else Inl TorchError))"

text \<open>\<open>len(x)\<close>: the size of the first dimension.\<close>

definition len :: "tensor \<Rightarrow> error + nat" where
  "len x = (case shape x of [] \<Rightarrow> Inl TypeError | n # _ \<Rightarrow> Inr n)"

text \<open>
  \<open>x[-n:]\<close>: a slice of the first dimension from index \<open>-n\<close>. Python counts a negative
  start from the end and clips it to 0; \<open>-0\<close> is \<open>0\<close>, the start of the sequence.
\<close>

definition slice_from_end :: "nat \<Rightarrow> tensor \<Rightarrow> error + tensor" where
  "slice_from_end n x =
     (case shape x of
        [] \<Rightarrow> Inl IndexError
      | l # rest \<Rightarrow>
          Inr \<lparr>shape = (if n = 0 then l else min n l) # rest,
               val = App (Slice_from_end n) [val x]\<rparr>)"

text \<open>\<open>x.shape[i]\<close>, an index into a tuple.\<close>

definition shape_at :: "tensor \<Rightarrow> nat \<Rightarrow> error + nat" where
  "shape_at x i = (if i < length (shape x) then Inr (shape x ! i) else Inl IndexError)"

definition transpose_dims :: "nat \<Rightarrow> nat \<Rightarrow> tensor \<Rightarrow> error + tensor" where
  "transpose_dims d0 d1 x =
     (if d0 < length (shape x) \<and> d1 < length (shape x) then
        Inr \<lparr>shape = (shape x)[d0 := shape x ! d1, d1 := shape x ! d0],
             val = App (Transpose d0 d1) [val x]\<rparr>
      else Inl TorchError)"

definition stack :: "tensor list \<Rightarrow> error + tensor" where
  "stack ts =
     (case ts of
        [] \<Rightarrow> Inl TorchError
      | t # rest \<Rightarrow>
          if \<forall>r \<in> set rest. shape r = shape t then
            Inr \<lparr>shape = length ts # shape t, val = App Stack (map val ts)\<rparr>
          else Inl TorchError)"

subsection \<open>The modules of torch.nn\<close>

record LayerNorm =
  normalized_shape :: nat

record Linear =
  in_features :: nat
  out_features :: nat

record Dropout =
  drop_p :: real

record MultiheadAttention =
  embed_dim :: nat
  num_heads :: nat
  attn_dropout :: real

definition LayerNorm_init :: "nat \<Rightarrow> LayerNorm" where
  "LayerNorm_init d = \<lparr>normalized_shape = d\<rparr>"

definition Linear_init :: "nat \<Rightarrow> nat \<Rightarrow> Linear" where
  "Linear_init n k = \<lparr>in_features = n, out_features = k\<rparr>"

definition Dropout_init :: "real \<Rightarrow> error + Dropout" where
  "Dropout_init pr =
     (if pr < 0 \<or> pr > 1 then Inl (ValueError ''dropout probability has to be between 0 and 1'')
      else Inr \<lparr>drop_p = pr\<rparr>)"

text \<open>
  The constructor computes \<open>head_dim = embed_dim // num_heads\<close> and asserts that
  \<open>head_dim * num_heads == embed_dim\<close>.
\<close>

definition MultiheadAttention_init :: "nat \<Rightarrow> nat \<Rightarrow> real \<Rightarrow> error + MultiheadAttention" where
  "MultiheadAttention_init e h pr =
     (if h = 0 then Inl ZeroDivisionError
      else if (e div h) * h \<noteq> e then Inl AssertionError
      else Inr \<lparr>embed_dim = e, num_heads = h, attn_dropout = pr\<rparr>)"

definition LayerNorm_forward :: "attr \<Rightarrow> LayerNorm \<Rightarrow> tensor \<Rightarrow> error + tensor" where
  "LayerNorm_forward a m x =
     (if shape x \<noteq> [] \<and> last (shape x) = normalized_shape m then
        Inr \<lparr>shape = shape x, val = App (Call a) [val x]\<rparr>
      else Inl TorchError)"

definition Linear_forward :: "attr \<Rightarrow> Linear \<Rightarrow> tensor \<Rightarrow> error + tensor" where
  "Linear_forward a m x =
     (if shape x \<noteq> [] \<and> last (shape x) = in_features m then
        Inr \<lparr>shape = butlast (shape x) @ [out_features m], val = App (Call a) [val x]\<rparr>
      else Inl TorchError)"

definition Dropout_forward :: "attr \<Rightarrow> Dropout \<Rightarrow> tensor \<Rightarrow> tensor" where
  "Dropout_forward a m x = \<lparr>shape = shape x, val = App (Call a) [val x]\<rparr>"

text \<open>
  \<open>self.activation\<close> is a parameter of the constructors (\<open>relu\<close> by default); it is
  taken to work element by element, as \<open>relu\<close> does.
\<close>

definition activation :: "tensor \<Rightarrow> tensor" where
  "activation x = \<lparr>shape = shape x, val = App (Call Activation) [val x]\<rparr>"

definition opt_val :: "tensor option \<Rightarrow> sym list" where
  "opt_val x = (case x of None \<Rightarrow> [] | Some t \<Rightarrow> [val t])"

text \<open>
  \<open>nn.MultiheadAttention.forward(query, key, value, attn_mask, key_padding_mask)[0]\<close>,
  for sequence-first batched operands: \<open>query\<close> is \<open>[L, N, E]\<close>, \<open>key\<close> and \<open>value\<close>
  are \<open>[S, N, E]\<close>, the key padding mask is \<open>[N, S]\<close>, an attention mask is \<open>[L, S]\<close>
  or \<open>[N * num_heads, L, S]\<close>, and the output is \<open>[L, N, E]\<close>. Within
  \<open>Transformer.forward\<close> the operands always have three dimensions; operands of another
  rank are rejected here.
\<close>

definition MultiheadAttention_forward ::
  "attr \<Rightarrow> MultiheadAttention \<Rightarrow> tensor \<Rightarrow> tensor \<Rightarrow> tensor \<Rightarrow> tensor option \<Rightarrow> tensor option
   \<Rightarrow> error + tensor" where
  "MultiheadAttention_forward a m query key value attn_mask key_padding_mask =
     (case (shape query, shape key) of
        ([L, N, E], [S, N', E']) \<Rightarrow>
          if E = embed_dim m \<and> E' = E \<and> N' = N \<and> shape value = shape key
             \<and> (case key_padding_mask of None \<Rightarrow> True | Some k \<Rightarrow> shape k = [N, S])
             \<and> (case attn_mask of None \<Rightarrow> True
                 | Some k \<Rightarrow> shape k = [L, S] \<or> shape k = [N * num_heads m, L, S])
          then Inr \<lparr>shape = [L, N, E],
                    val = App (Call a) ([val query, val key, val value]
                                        @ opt_val attn_mask @ opt_val key_padding_mask)\<rparr>
          else Inl TorchError
      | _ \<Rightarrow> Inl TorchError)"

section \<open>models/mdetr.py: the transformer\<close>

subsection \<open>TransformerEncoderLayer\<close>

record TransformerEncoderLayer =
  enc_self_attn :: MultiheadAttention
  enc_linear1 :: Linear
  enc_dropout :: Dropout
  enc_linear2 :: Linear
  enc_norm1 :: LayerNorm
  enc_norm2 :: LayerNorm
  enc_dropout1 :: Dropout
  enc_dropout2 :: Dropout
  enc_normalize_before :: bool

definition TransformerEncoderLayer_init ::
  "nat \<Rightarrow> nat \<Rightarrow> nat \<Rightarrow> real \<Rightarrow> bool \<Rightarrow> error + TransformerEncoderLayer" where
  "TransformerEncoderLayer_init d_model nhead dim_feedforward dropout normalize_before =
     bnd (MultiheadAttention_init d_model nhead dropout) (\<lambda>self_attn.
     bnd (Dropout_init dropout) (\<lambda>drop.
       Inr \<lparr>enc_self_attn = self_attn,
            enc_linear1 = Linear_init d_model dim_feedforward,
            enc_dropout = drop,
            enc_linear2 = Linear_init dim_feedforward d_model,
            enc_norm1 = LayerNorm_init d_model,
            enc_norm2 = LayerNorm_init d_model,
            enc_dropout1 = drop,
            enc_dropout2 = drop,
            enc_normalize_before = normalize_before\<rparr>))"

definition with_pos_embed :: "tensor \<Rightarrow> tensor option \<Rightarrow> error + tensor" where
  "with_pos_embed x pos = (case pos of None \<Rightarrow> Inr x | Some p \<Rightarrow> add (Some x) (Some p))"

definition enc_forward_post ::
  "TransformerEncoderLayer \<Rightarrow> tensor \<Rightarrow> tensor option \<Rightarrow> tensor option \<Rightarrow> tensor option
   \<Rightarrow> error + tensor" where
  "enc_forward_post self src src_mask src_key_padding_mask pos =
     bnd (with_pos_embed src pos) (\<lambda>q.
     bnd (MultiheadAttention_forward Self_attn (enc_self_attn self) q q src
            src_mask src_key_padding_mask) (\<lambda>src2.
     bnd (add (Some src) (Some (Dropout_forward Dropout1 (enc_dropout1 self) src2))) (\<lambda>src.
     bnd (LayerNorm_forward Norm1 (enc_norm1 self) src) (\<lambda>src.
     bnd (Linear_forward Linear1 (enc_linear1 self) src) (\<lambda>h.
     bnd (Linear_forward Linear2 (enc_linear2 self)
            (Dropout_forward Dropout0 (enc_dropout self) (activation h))) (\<lambda>src2.
     bnd (add (Some src) (Some (Dropout_forward Dropout2 (enc_dropout2 self) src2))) (\<lambda>src.
     LayerNorm_forward Norm2 (enc_norm2 self) src)))))))"

definition enc_forward_pre ::
  "TransformerEncoderLayer \<Rightarrow> tensor \<Rightarrow> tensor option \<Rightarrow> tensor option \<Rightarrow> tensor option
   \<Rightarrow> error + tensor" where
  "enc_forward_pre self src src_mask src_key_padding_mask pos =
     bnd (LayerNorm_forward Norm1 (enc_norm1 self) src) (\<lambda>src2.
     bnd (with_pos_embed src2 pos) (\<lambda>q.
     bnd (MultiheadAttention_forward Self_attn (enc_self_attn self) q q src2
            src_mask src_key_padding_mask) (\<lambda>src2.
     bnd (add (Some src) (Some (Dropout_forward Dropout1 (enc_dropout1 self) src2))) (\<lambda>src.
     bnd (LayerNorm_forward Norm2 (enc_norm2 self) src) (\<lambda>src2.
     bnd (Linear_forward Linear1 (enc_linear1 self) src2) (\<lambda>h.
     bnd (Linear_forward Linear2 (enc_linear2 self)
            (Dropout_forward Dropout0 (enc_dropout self) (activation h))) (\<lambda>src2.
     add (Some src) (Some (Dropout_forward Dropout2 (enc_dropout2 self) src2)))))))))"

definition TransformerEncoderLayer_forward ::
  "TransformerEncoderLayer \<Rightarrow> tensor \<Rightarrow> tensor option \<Rightarrow> tensor option \<Rightarrow> tensor option
   \<Rightarrow> error + tensor" where
  "TransformerEncoderLayer_forward self src src_mask src_key_padding_mask pos =
     (if enc_normalize_before self then enc_forward_pre self src src_mask src_key_padding_mask pos
      else enc_forward_post self src src_mask src_key_padding_mask pos)"

subsection \<open>TransformerDecoderLayer\<close>

text \<open>The constructor takes no \<open>normalize_before\<close>, and the class has one \<open>forward\<close>.\<close>

record TransformerDecoderLayer =
  dec_self_attn :: MultiheadAttention
  dec_cross_attn_image :: MultiheadAttention
  dec_linear1 :: Linear
  dec_dropout :: Dropout
  dec_linear2 :: Linear
  dec_norm1 :: LayerNorm
  dec_norm3 :: LayerNorm
  dec_norm4 :: LayerNorm
  dec_dropout1 :: Dropout
  dec_dropout3 :: Dropout
  dec_dropout4 :: Dropout

definition TransformerDecoderLayer_init ::
  "nat \<Rightarrow> nat \<Rightarrow> nat \<Rightarrow> real \<Rightarrow> error + TransformerDecoderLayer" where
  "TransformerDecoderLayer_init d_model nhead dim_feedforward dropout =
     bnd (MultiheadAttention_init d_model nhead dropout) (\<lambda>self_attn.
     bnd (MultiheadAttention_init d_model nhead dropout) (\<lambda>cross_attn_image.
     bnd (Dropout_init dropout) (\<lambda>drop.
       Inr \<lparr>dec_self_attn = self_attn,
            dec_cross_attn_image = cross_attn_image,
            dec_linear1 = Linear_init d_model dim_feedforward,
            dec_dropout = drop,
            dec_linear2 = Linear_init dim_feedforward d_model,
            dec_norm1 = LayerNorm_init d_model,
            dec_norm3 = LayerNorm_init d_model,
            dec_norm4 = LayerNorm_init d_model,
            dec_dropout1 = drop,
            dec_dropout3 = drop,
            dec_dropout4 = drop\<rparr>)))"

definition TransformerDecoderLayer_forward ::
  "TransformerDecoderLayer \<Rightarrow> tensor \<Rightarrow> tensor \<Rightarrow> tensor option \<Rightarrow> tensor option
   \<Rightarrow> tensor option \<Rightarrow> tensor option \<Rightarrow> tensor option \<Rightarrow> tensor option
   \<Rightarrow> error + tensor" where
  "TransformerDecoderLayer_forward self tgt memory tgt_mask memory_mask
       tgt_key_padding_mask memory_key_padding_mask pos query_pos =
     bnd (with_pos_embed tgt query_pos) (\<lambda>q.
     bnd (MultiheadAttention_forward Self_attn (dec_self_attn self) q q tgt
            tgt_mask tgt_key_padding_mask) (\<lambda>tgt2.
     bnd (add (Some tgt) (Some (Dropout_forward Dropout1 (dec_dropout1 self) tgt2))) (\<lambda>tgt.
     bnd (LayerNorm_forward Norm1 (dec_norm1 self) tgt) (\<lambda>tgt.
     bnd (with_pos_embed tgt query_pos) (\<lambda>query.
     bnd (with_pos_embed memory pos) (\<lambda>key.
     bnd (MultiheadAttention_forward Cross_attn_image (dec_cross_attn_image self) query key memory
            memory_mask memory_key_padding_mask) (\<lambda>tgt2.
     bnd (add (Some tgt) (Some (Dropout_forward Dropout3 (dec_dropout3 self) tgt2))) (\<lambda>tgt.
     bnd (LayerNorm_forward Norm3 (dec_norm3 self) tgt) (\<lambda>tgt.
     bnd (Linear_forward Linear1 (dec_linear1 self) tgt) (\<lambda>h.
     bnd (Linear_forward Linear2 (dec_linear2 self)
            (Dropout_forward Dropout0 (dec_dropout self) (activation h))) (\<lambda>tgt2.
     bnd (add (Some tgt) (Some (Dropout_forward Dropout4 (dec_dropout4 self) tgt2))) (\<lambda>tgt.
     LayerNorm_forward Norm4 (dec_norm4 self) tgt))))))))))))"

subsection \<open>TransformerEncoder and TransformerDecoder\<close>

text \<open>\<open>_get_clones(module, N)\<close>: \<open>N\<close> deep copies of the module.\<close>

definition get_clones :: "'m \<Rightarrow> nat \<Rightarrow> 'm list" where
  "get_clones module' N = replicate N module'"

record TransformerEncoder =
  enc_layers :: "TransformerEncoderLayer list"
  enc_num_layers :: nat
  enc_norm :: "LayerNorm option"

definition TransformerEncoder_init ::
  "TransformerEncoderLayer \<Rightarrow> nat \<Rightarrow> LayerNorm option \<Rightarrow> TransformerEncoder" where
  "TransformerEncoder_init encoder_layer num_layers norm' =
     \<lparr>enc_layers = get_clones encoder_layer num_layers,
      enc_num_layers = num_layers,
      enc_norm = norm'\<rparr>"

fun encoder_loop ::
  "TransformerEncoderLayer list \<Rightarrow> tensor \<Rightarrow> tensor option \<Rightarrow> tensor option \<Rightarrow> tensor option
   \<Rightarrow> error + tensor" where
  "encoder_loop [] output msk src_key_padding_mask pos = Inr output"
| "encoder_loop (layer # layers) output msk src_key_padding_mask pos =
     bnd (TransformerEncoderLayer_forward layer output msk src_key_padding_mask pos) (\<lambda>output.
     encoder_loop layers output msk src_key_padding_mask pos)"

definition TransformerEncoder_forward ::
  "TransformerEncoder \<Rightarrow> tensor \<Rightarrow> tensor option \<Rightarrow> tensor option \<Rightarrow> tensor option
   \<Rightarrow> error + tensor" where
  "TransformerEncoder_forward self src msk src_key_padding_mask pos =
     bnd (encoder_loop (enc_layers self) src msk src_key_padding_mask pos) (\<lambda>output.
     case enc_norm self of
       None \<Rightarrow> Inr output
     | Some n \<Rightarrow> LayerNorm_forward Norm0 n output)"

record TransformerDecoder =
  dec_layers :: "TransformerDecoderLayer list"
  dec_num_layers :: nat
  dec_norm :: "LayerNorm option"
  return_intermediate :: bool

definition TransformerDecoder_init ::
  "TransformerDecoderLayer \<Rightarrow> nat \<Rightarrow> LayerNorm option \<Rightarrow> bool \<Rightarrow> TransformerDecoder" where
  "TransformerDecoder_init decoder_layer num_layers norm' return_intermediate' =
     \<lparr>dec_layers = get_clones decoder_layer num_layers,
      dec_num_layers = num_layers,
      dec_norm = norm',
      return_intermediate = return_intermediate'\<rparr>"

text \<open>\<open>self.norm(output)\<close>; calling \<open>None\<close> is a \<open>TypeError\<close>.\<close>

definition call_norm :: "LayerNorm option \<Rightarrow> tensor \<Rightarrow> error + tensor" where
  "call_norm n x = (case n of None \<Rightarrow> Inl TypeError | Some m \<Rightarrow> LayerNorm_forward Norm0 m x)"

text \<open>
  The \<open>for\<close> loop of \<open>TransformerDecoder.forward\<close>, on the pair of \<open>output\<close> and the
  list \<open>intermediate\<close>.
\<close>

fun decoder_loop ::
  "TransformerDecoder \<Rightarrow> TransformerDecoderLayer list \<Rightarrow> tensor \<Rightarrow> tensor list \<Rightarrow> tensor
   \<Rightarrow> tensor option \<Rightarrow> tensor option \<Rightarrow> tensor option \<Rightarrow> tensor option
   \<Rightarrow> tensor option \<Rightarrow> tensor option \<Rightarrow> error + tensor \<times> tensor list" where
  "decoder_loop self [] output intermediate memory tgt_mask memory_mask
       tgt_key_padding_mask memory_key_padding_mask pos query_pos = Inr (output, intermediate)"
| "decoder_loop self (layer # layers) output intermediate memory tgt_mask memory_mask
       tgt_key_padding_mask memory_key_padding_mask pos query_pos =
     bnd (TransformerDecoderLayer_forward layer output memory tgt_mask memory_mask
            tgt_key_padding_mask memory_key_padding_mask pos query_pos) (\<lambda>output.
     if return_intermediate self then
       bnd (call_norm (dec_norm self) output) (\<lambda>normed.
       decoder_loop self layers output (intermediate @ [normed]) memory tgt_mask memory_mask
         tgt_key_padding_mask memory_key_padding_mask pos query_pos)
     else
       decoder_loop self layers output intermediate memory tgt_mask memory_mask
         tgt_key_padding_mask memory_key_padding_mask pos query_pos)"

text \<open>\<open>intermediate.pop()\<close> followed by \<open>intermediate.append(output)\<close>.\<close>

definition pop_append :: "tensor list \<Rightarrow> tensor \<Rightarrow> error + tensor list" where
  "pop_append intermediate output =
     (if intermediate = [] then Inl IndexError else Inr (butlast intermediate @ [output]))"

definition TransformerDecoder_forward ::
  "TransformerDecoder \<Rightarrow> tensor \<Rightarrow> tensor \<Rightarrow> tensor option \<Rightarrow> tensor option
   \<Rightarrow> tensor option \<Rightarrow> tensor option \<Rightarrow> tensor option \<Rightarrow> tensor option
   \<Rightarrow> error + tensor" where
  "TransformerDecoder_forward self tgt memory tgt_mask memory_mask
       tgt_key_padding_mask memory_key_padding_mask pos query_pos =
     bnd (decoder_loop self (dec_layers self) tgt [] memory tgt_mask memory_mask
            tgt_key_padding_mask memory_key_padding_mask pos query_pos) (\<lambda>(output, intermediate).
     bnd (case dec_norm self of
            None \<Rightarrow> Inr (output, intermediate)
          | Some n \<Rightarrow>
              bnd (LayerNorm_forward Norm0 n output) (\<lambda>output.
              if return_intermediate self then
                bnd (pop_append intermediate output) (\<lambda>intermediate. Inr (output, intermediate))
              else Inr (output, intermediate))) (\<lambda>(output, intermediate).
     if return_intermediate self then stack intermediate else Inr output))"

subsection \<open>Transformer\<close>

record Transformer =
  pass_pos_and_query :: bool
  encoder :: TransformerEncoder
  decoder :: TransformerDecoder
  d_model :: nat

text \<open>The arguments of \<open>Transformer.__init__\<close>, and their defaults.\<close>

record Transformer_args =
  a_d_model :: nat
  a_nhead :: nat
  a_num_encoder_layers :: nat
  a_num_decoder_layers :: nat
  a_dim_feedforward :: nat
  a_dropout :: real
  a_normalize_before :: bool
  a_return_intermediate_dec :: bool
  a_pass_pos_and_query :: bool

definition default_args :: Transformer_args where
  "default_args =
     \<lparr>a_d_model = 512, a_nhead = 8, a_num_encoder_layers = 6, a_num_decoder_layers = 6,
      a_dim_feedforward = 2048, a_dropout = 0.1, a_normalize_before = False,
      a_return_intermediate_dec = False, a_pass_pos_and_query = True\<rparr>"

definition Transformer_init :: "Transformer_args \<Rightarrow> error + Transformer" where
  "Transformer_init a =
     bnd (TransformerEncoderLayer_init (a_d_model a) (a_nhead a) (a_dim_feedforward a)
            (a_dropout a) (a_normalize_before a)) (\<lambda>encoder_layer.
     let encoder_norm = (if a_normalize_before a then Some (LayerNorm_init (a_d_model a)) else None) in
     bnd (TransformerDecoderLayer_init (a_d_model a) (a_nhead a) (a_dim_feedforward a)
            (a_dropout a)) (\<lambda>decoder_layer.
     let decoder_norm = LayerNorm_init (a_d_model a) in
     Inr \<lparr>pass_pos_and_query = a_pass_pos_and_query a,
          encoder = TransformerEncoder_init encoder_layer (a_num_encoder_layers a) encoder_norm,
          decoder = TransformerDecoder_init decoder_layer (a_num_decoder_layers a)
                      (Some decoder_norm) (a_return_intermediate_dec a),
          d_model = a_d_model a\<rparr>))"

definition mdetr_transformer :: "error + Transformer" where
  "mdetr_transformer =
     Transformer_init (default_args\<lparr>a_d_model := 256, a_nhead := 8, a_num_encoder_layers := 6,
       a_num_decoder_layers := 6, a_dim_feedforward := 2048, a_dropout := 0.1,
       a_return_intermediate_dec := True, a_pass_pos_and_query := True\<rparr>)"

text \<open>A method or attribute of a value that may be \<open>None\<close>.\<close>

definition get_attr :: "tensor option \<Rightarrow> error + tensor" where
  "get_attr x = (case x of None \<Rightarrow> Inl AttributeError | Some t \<Rightarrow> Inr t)"

text \<open>\<open>bs, _, _, _ = src.shape\<close>\<close>

definition unpack4 :: "nat list \<Rightarrow> error + nat" where
  "unpack4 s =
     (if length s < 4 then Inl (ValueError ''not enough values to unpack (expected 4)'')
      else if length s > 4 then Inl (ValueError ''too many values to unpack (expected 4)'')
      else Inr (s ! 0))"

text \<open>
  \<open>assert img_memory.shape[1] == text_memory.shape[1] == tgt.shape[1]\<close>: a chained
  comparison, which reads \<open>tgt.shape\<close> only when the first two agree.
\<close>

definition assert_shape1 :: "tensor \<Rightarrow> tensor \<Rightarrow> tensor option \<Rightarrow> error + unit" where
  "assert_shape1 img_memory text_memory tgt =
     bnd (shape_at img_memory 1) (\<lambda>a.
     bnd (shape_at text_memory 1) (\<lambda>b.
     if a \<noteq> b then Inl AssertionError
     else bnd (get_attr tgt) (\<lambda>t. bnd (shape_at t 1) (\<lambda>c.
          if b = c then Inr () else Inl AssertionError))))"

text \<open>
  \<open>Transformer.forward\<close> in three parts. The first is lines 164 to 185: flattening,
  the choice of \<open>tgt\<close> by \<open>pass_pos_and_query\<close>, and the three concatenations.
\<close>

record fused =
  f_src :: tensor
  f_mask :: tensor
  f_pos_embed :: tensor
  f_query_embed :: "tensor option"
  f_tgt :: tensor
  f_text_memory :: "tensor option"

definition Transformer_fuse ::
  "Transformer \<Rightarrow> tensor option \<Rightarrow> tensor option \<Rightarrow> tensor option \<Rightarrow> tensor option
   \<Rightarrow> tensor option \<Rightarrow> tensor option \<Rightarrow> error + fused" where
  "Transformer_fuse self src msk query_embed pos_embed text_memory text_attention_mask =
     bnd (get_attr src) (\<lambda>src.
     bnd (unpack4 (shape src)) (\<lambda>bs.
     bnd (bnd (flatten 2 src) (permute [2, 0, 1])) (\<lambda>src.
     bnd (get_attr pos_embed) (\<lambda>pos_embed.
     bnd (bnd (flatten 2 pos_embed) (permute [2, 0, 1])) (\<lambda>pos_embed.
     bnd (get_attr query_embed) (\<lambda>query_embed.
     bnd (bnd (unsqueeze 1 query_embed) (repeat [1, bs, 1])) (\<lambda>query_embed.
     bnd (get_attr msk) (\<lambda>msk.
     bnd (flatten 1 msk) (\<lambda>msk.
     bnd (if pass_pos_and_query self then
            bnd (zeros_like (Some query_embed)) (\<lambda>tgt.
            Inr (src, tgt, Some query_embed, Some pos_embed))
          else
            bnd (scale 0.1 (Some pos_embed)) (\<lambda>p.
            bnd (add (Some src) (Some p)) (\<lambda>src.
            Inr (src, query_embed, None, None)))) (\<lambda>(src, tgt, query_embed, pos_embed).
     bnd (cat [Some src, text_memory] 0) (\<lambda>src.
     bnd (cat [Some msk, text_attention_mask] 1) (\<lambda>msk.
     bnd (zeros_like text_memory) (\<lambda>z.
     bnd (cat [pos_embed, Some z] 0) (\<lambda>pos_embed.
     Inr \<lparr>f_src = src, f_mask = msk, f_pos_embed = pos_embed, f_query_embed = query_embed,
          f_tgt = tgt, f_text_memory = text_memory\<rparr>))))))))))))))"

text \<open>
  The second part is lines 187 to 204: the encoder, the slice that refines the text
  memory, the two assertions, and between them the second choice of \<open>tgt\<close>, made after
  \<open>src = None\<close>.
\<close>

record encoded =
  e_tgt :: tensor
  e_img_memory :: tensor
  e_text_memory :: tensor
  e_mask :: tensor
  e_pos_embed :: "tensor option"
  e_query_embed :: "tensor option"

definition Transformer_encode :: "Transformer \<Rightarrow> fused \<Rightarrow> error + encoded" where
  "Transformer_encode self f =
     bnd (TransformerEncoder_forward (encoder self) (f_src f) None (Some (f_mask f))
            (Some (f_pos_embed f))) (\<lambda>img_memory.
     bnd (case f_text_memory f of None \<Rightarrow> Inl TypeError | Some t \<Rightarrow> len t) (\<lambda>n.
     bnd (slice_from_end n img_memory) (\<lambda>text_memory.
     bnd (assert_shape1 img_memory text_memory (Some (f_tgt f))) (\<lambda>_.
     bnd (if pass_pos_and_query self then
            bnd (zeros_like (f_query_embed f)) (\<lambda>tgt.
            Inr (Some tgt, f_query_embed f, Some (f_pos_embed f)))
          else
            bnd (scale 0.1 (Some (f_pos_embed f))) (\<lambda>p.
            bnd (add None (Some p)) (\<lambda>src.
            Inr (f_query_embed f, None, None)))) (\<lambda>(tgt, query_embed, pos_embed).
     bnd (assert_shape1 img_memory text_memory tgt) (\<lambda>_.
     bnd (get_attr tgt) (\<lambda>tgt.
     Inr \<lparr>e_tgt = tgt, e_img_memory = img_memory, e_text_memory = text_memory,
          e_mask = f_mask f, e_pos_embed = pos_embed, e_query_embed = query_embed\<rparr>)))))))"

text \<open>The third part is the call of the decoder and the transposition of its result.\<close>

definition Transformer_decode :: "Transformer \<Rightarrow> encoded \<Rightarrow> error + tensor" where
  "Transformer_decode self e =
     bnd (TransformerDecoder_forward (decoder self) (e_tgt e) (e_img_memory e) None None None
            (Some (e_mask e)) (e_pos_embed e) (e_query_embed e)) (\<lambda>hs.
     transpose_dims 1 2 hs)"

definition Transformer_forward ::
  "Transformer \<Rightarrow> tensor option \<Rightarrow> tensor option \<Rightarrow> tensor option \<Rightarrow> tensor option
   \<Rightarrow> tensor option \<Rightarrow> tensor option \<Rightarrow> tensor option \<Rightarrow> error + tensor" where
  "Transformer_forward self src msk query_embed pos_embed text_memory img_memory
       text_attention_mask =
     bnd (Transformer_fuse self src msk query_embed pos_embed text_memory text_attention_mask)
       (\<lambda>f.
     bnd (Transformer_encode self f) (\<lambda>e.
     Transformer_decode self e))"

section \<open>Notions for the statements\<close>

text \<open>
  Well-formed inputs of \<open>Transformer.forward\<close> for a model of width \<open>d\<close>: a batch of
  \<open>B\<close> feature maps of \<open>H\<close> by \<open>W\<close> positions with \<open>d\<close> channels, their padding mask
  and positional embedding, a table of \<open>Q\<close> queries, and a text memory of \<open>T\<close> tokens
  with its attention mask. Every axis is non-empty and the batch sizes agree.
\<close>

definition valid_inputs ::
  "nat \<Rightarrow> nat \<Rightarrow> nat \<Rightarrow> nat \<Rightarrow> nat \<Rightarrow> nat
   \<Rightarrow> tensor \<Rightarrow> tensor \<Rightarrow> tensor \<Rightarrow> tensor \<Rightarrow> tensor \<Rightarrow> tensor \<Rightarrow> bool" where
  "valid_inputs d B H W Q T src msk query_embed pos_embed text_memory text_attention_mask =
     (0 < d \<and> 0 < B \<and> 0 < H \<and> 0 < W \<and> 0 < Q \<and> 0 < T
      \<and> shape src = [B, d, H, W] \<and> shape msk = [B, H, W]
      \<and> shape query_embed = [Q, d] \<and> shape pos_embed = [B, d, H, W]
      \<and> shape text_memory = [T, B, d] \<and> shape text_attention_mask = [B, T])"

text \<open>
  The raw outputs of the successive decoder layers, each layer reading the output of the
  one before it: what the loop of \<open>TransformerDecoder.forward\<close> holds in \<open>output\<close>
  after each iteration.
\<close>

fun layer_outputs ::
  "TransformerDecoderLayer list \<Rightarrow> tensor \<Rightarrow> tensor
   \<Rightarrow> tensor option \<Rightarrow> tensor option \<Rightarrow> tensor option \<Rightarrow> tensor option
   \<Rightarrow> tensor option \<Rightarrow> tensor option \<Rightarrow> error + tensor list" where
  "layer_outputs [] x memory tgt_mask memory_mask tgt_key_padding_mask
       memory_key_padding_mask pos query_pos = Inr []"
| "layer_outputs (layer # layers) x memory tgt_mask memory_mask tgt_key_padding_mask
       memory_key_padding_mask pos query_pos =
     bnd (TransformerDecoderLayer_forward layer x memory tgt_mask memory_mask
            tgt_key_padding_mask memory_key_padding_mask pos query_pos) (\<lambda>y.
     bnd (layer_outputs layers y memory tgt_mask memory_mask tgt_key_padding_mask
            memory_key_padding_mask pos query_pos) (\<lambda>ys. Inr (y # ys)))"

text \<open>
  The two orderings of normalization, following the specification. A post-norm block
  normalizes after the residual addition: its output is \<open>norm(x + f)\<close>. A pre-norm
  block adds the un-normalized input to a sub-block that read the normalized input: its
  output is \<open>x + f\<close>, where the tensor that \<open>f\<close> works on (the operand of its unary
  modules, the value operand of its attention) is \<open>norm(x)\<close>. \<open>block_orders k y\<close> lists
  the orderings of the last \<open>k\<close> residual blocks that computed \<open>y\<close>, first block first.
\<close>

datatype norm_order = Pre_norm | Post_norm

fun is_layer_norm :: "attr \<Rightarrow> bool" where
  "is_layer_norm Norm0 = True"
| "is_layer_norm Norm1 = True"
| "is_layer_norm Norm2 = True"
| "is_layer_norm Norm3 = True"
| "is_layer_norm Norm4 = True"
| "is_layer_norm _ = False"

primrec sub_block_input :: "sym \<Rightarrow> sym option" where
  "sub_block_input (Input n) = None"
| "sub_block_input (App g args) =
     (case g of
        Call a \<Rightarrow>
          if is_layer_norm a then Some (App g args)
          else (case map sub_block_input args of
                  [r] \<Rightarrow> r
                | _ \<Rightarrow> (case args of q # k # v # masks \<Rightarrow> Some v | _ \<Rightarrow> None))
      | _ \<Rightarrow> None)"

fun norm_arg :: "sym \<Rightarrow> sym option" where
  "norm_arg (Input n) = None"
| "norm_arg (App g args) =
     (case g of Call a \<Rightarrow> (if is_layer_norm a \<and> length args = 1 then Some (args ! 0) else None)
      | _ \<Rightarrow> None)"

fun residual_sum :: "sym \<Rightarrow> (sym \<times> sym) option" where
  "residual_sum (Input n) = None"
| "residual_sum (App g args) =
     (if g = Add \<and> length args = 2 then Some (args ! 0, args ! 1) else None)"

definition residual_block :: "sym \<Rightarrow> (norm_order \<times> sym) option" where
  "residual_block y =
     (case norm_arg y of
        Some s \<Rightarrow> (case residual_sum s of Some (x, f) \<Rightarrow> Some (Post_norm, x) | None \<Rightarrow> None)
      | None \<Rightarrow>
          (case residual_sum y of
             Some (x, f) \<Rightarrow>
               (case sub_block_input f of
                  Some n \<Rightarrow> if norm_arg n = Some x then Some (Pre_norm, x) else None
                | None \<Rightarrow> None)
           | None \<Rightarrow> None))"

fun block_orders :: "nat \<Rightarrow> sym \<Rightarrow> norm_order list" where
  "block_orders 0 y = []"
| "block_orders (Suc k) y =
     (case residual_block y of None \<Rightarrow> [] | Some (ord, x) \<Rightarrow> block_orders k x @ [ord])"

text \<open>
  Concrete inputs for the examples: a batch of two feature maps of 20 by 30 positions,
  a hundred queries and twelve text tokens, for a model of width 256.
\<close>

definition input_tensor :: "string \<Rightarrow> nat list \<Rightarrow> tensor" where
  "input_tensor name s = \<lparr>shape = s, val = Input name\<rparr>"

definition ex_src :: tensor where "ex_src = input_tensor ''src'' [2, 256, 20, 30]"
definition ex_mask :: tensor where "ex_mask = input_tensor ''mask'' [2, 20, 30]"
definition ex_query_embed :: tensor where "ex_query_embed = input_tensor ''query_embed'' [100, 256]"
definition ex_pos_embed :: tensor where "ex_pos_embed = input_tensor ''pos_embed'' [2, 256, 20, 30]"
definition ex_text_memory :: tensor where "ex_text_memory = input_tensor ''text_memory'' [12, 2, 256]"
definition ex_text_attention_mask :: tensor where
  "ex_text_attention_mask = input_tensor ''text_attention_mask'' [2, 12]"




section \<open>Properties of map\_pixels\<close>

lemma torch_float_is_float32: "torch_float = Float32"
  by (simp add: torch_float_def)

text \<open>
  Claim C9. Given a tensor of an integer element type, of whatever shape and content,
  \<open>map_pixels\<close> raises its \<open>ValueError\<close>: the result is the error and no tensor, and
  it is the same for every shape and every content, so nothing was computed from them.
\<close>

theorem map_pixels_rejects_integer:
  assumes "is_integer_dtype (dtype x)"
  shows "map_pixels x = Inl (ValueError ''expected input to have type float'')"
proof -
  have "dtype x \<noteq> Float32" using assms by (cases "dtype x") simp_all
  then show ?thesis by (simp add: map_pixels_def torch_float_def)
qed

theorem map_pixels_rejects_integer_witness:
  "is_integer_dtype (dtype \<lparr>dtype = Int64, dims = [2, 3], elems = [0, 1, 2, 3, 4, 5]\<rparr>)
   \<and> map_pixels \<lparr>dtype = Int64, dims = [2, 3], elems = [0, 1, 2, 3, 4, 5]\<rparr>
       = Inl (ValueError ''expected input to have type float'')"
proof -
  have h: "is_integer_dtype (dtype \<lparr>dtype = Int64, dims = [2, 3], elems = [0, 1, 2, 3, 4, 5]\<rparr>)"
    by simp
  show ?thesis using h map_pixels_rejects_integer [OF h] by simp
qed

text \<open>
  Claim C10. The check compares the element type with \<open>torch.float\<close>, that is float32:
  a tensor of any other element type, the floating-point types float64 and float16
  among them, gets the \<open>ValueError\<close>; a float32 tensor is accepted and mapped, keeping
  its element type and shape.
\<close>

theorem map_pixels_accepts_float32_only:
  "(dtype x \<noteq> Float32 \<longrightarrow>
      map_pixels x = Inl (ValueError ''expected input to have type float''))
   \<and> (dtype x = Float32 \<longrightarrow>
      (\<exists>y. map_pixels x = Inr y \<and> dtype y = Float32 \<and> dims y = dims x
           \<and> length (elems y) = length (elems x)))"
  by (simp add: map_pixels_def torch_float_def)

theorem map_pixels_accepts_float32_only_witness:
  "map_pixels \<lparr>dtype = Float64, dims = [2], elems = [0, 1]\<rparr>
     = Inl (ValueError ''expected input to have type float'')
   \<and> map_pixels \<lparr>dtype = Float16, dims = [2], elems = [0, 1]\<rparr>
     = Inl (ValueError ''expected input to have type float'')
   \<and> (\<exists>y. map_pixels \<lparr>dtype = Float32, dims = [2], elems = [0, 1]\<rparr> = Inr y
          \<and> dtype y = Float32 \<and> dims y = [2])"
  using map_pixels_accepts_float32_only [of "\<lparr>dtype = Float64, dims = [2], elems = [0, 1]\<rparr>"]
        map_pixels_accepts_float32_only [of "\<lparr>dtype = Float16, dims = [2], elems = [0, 1]\<rparr>"]
        map_pixels_accepts_float32_only [of "\<lparr>dtype = Float32, dims = [2], elems = [0, 1]\<rparr>"]
  by auto

lemma map_pixels_midpoint:
  "map_pixels \<lparr>dtype = Float32, dims = [1], elems = [1 / 2]\<rparr>
     = Inr \<lparr>dtype = Float32, dims = [1], elems = [1 / 2]\<rparr>"
  by (simp add: map_pixels_def torch_float_def LOGIT_LAPLACE_EPS_def)

section \<open>Properties of MaskingGenerator\<close>

subsection \<open>Filling a block\<close>




lemma fill_cell_pair:
  "fill_cell (i, j) (g, d) =
     (if g ! i ! j = 0 then (g[i := (g ! i)[j := 1]], d + 1) else (g, d))"
  by (simp add: fill_cell_def)



















lemma random_random_range: "0 \<le> random_random r \<and> random_random r < 1"
proof -
  have "r mod 2 ^ 53 < (2::nat) ^ 53" by simp
  then have "real (r mod 2 ^ 53) < 2 ^ 53"
    by (metis of_nat_less_iff of_nat_numeral of_nat_power)
  then show ?thesis by (simp add: random_random_def)
qed

lemma random_uniform_nonneg:
  assumes "0 \<le> a" "0 \<le> b"
  shows "0 \<le> random_uniform a b r"
proof -
  let ?u = "random_random r"
  have u: "0 \<le> ?u" "?u < 1" using random_random_range by simp_all
  have "random_uniform a b r = a * (1 - ?u) + b * ?u"
    by (simp add: random_uniform_def algebra_simps)
  moreover have "0 \<le> a * (1 - ?u)" using assms(1) u by simp
  moreover have "0 \<le> b * ?u" using assms(2) u by simp
  ultimately show ?thesis by linarith
qed

lemma mask_attempts_pos:
  "mask_attempts self rnd n k g mmp = Inr (g', d, k') \<Longrightarrow> k \<le> k' \<and> k' \<le> k + n"
proof (induction n arbitrary: k g)
  case 0
  then show ?case by simp
next
  case (Suc n)
  show ?case using Suc.prems Suc.IH
    by (fastforce simp: Let_def split: if_splits prod.splits)
qed

lemma mask_attempts_error:
  "mask_attempts self rnd n k g mmp = Inl e \<Longrightarrow> e = ValueError ''math domain error''"
proof (induction n arbitrary: k g)
  case 0
  then show ?case by simp
next
  case (Suc n)
  show ?case using Suc.prems Suc.IH
    by (fastforce simp: Let_def split: if_splits prod.splits)
qed

lemma mask_attempts_returns:
  assumes "0 \<le> min_num_patches self" "0 \<le> mmp"
  shows "\<exists>r. mask_attempts self rnd n k g mmp = Inr r"
proof (induction n arbitrary: k g)
  case 0
  then show ?case by simp
next
  case (Suc n)
  have "\<not> random_uniform (real_of_int (min_num_patches self)) (real_of_int mmp) (r_area (rnd k)) < 0"
    using random_uniform_nonneg[of "real_of_int (min_num_patches self)" "real_of_int mmp"] assms
    by (simp add: not_less)
  then show ?case using Suc.IH
    by (auto simp: Let_def split: prod.splits)
qed


lemma call_loop_unfold:
  assumes "mc < num_masking_patches self"
  shows "call_loop self rnd k g mc
         = (case mask_fn self rnd k g
                   (min (int (num_masking_patches self - mc)) (max_num_patches self)) of
              Inl e \<Rightarrow> Some (Inl e)
            | Inr (g', d, k') \<Rightarrow>
                if d = 0 then Some (Inr (g', k')) else call_loop self rnd k' g' (mc + d))"
  using assms by (subst call_loop.simps) (simp add: Let_def)

lemma call_loop_done:
  "\<not> mc < num_masking_patches self \<Longrightarrow> call_loop self rnd k g mc = Some (Inr (g, k))"
  by (subst call_loop.simps) simp

lemma call_loop_terminates:
  "\<exists>r. call_loop self rnd k g mc = Some r
       \<and> (case r of
            Inl e \<Rightarrow> e = ValueError ''math domain error''
          | Inr (g', k') \<Rightarrow> k \<le> k' \<and> k' \<le> k + 10 * (num_masking_patches self - mc))"
proof (induction "num_masking_patches self - mc" arbitrary: k g mc rule: less_induct)
  case less
  show ?case
  proof (cases "mc < num_masking_patches self")
    case False
    then show ?thesis by (simp add: call_loop_done)
  next
    case True
    let ?mmp = "min (int (num_masking_patches self - mc)) (max_num_patches self)"
    show ?thesis
    proof (cases "mask_fn self rnd k g ?mmp")
      case (Inl e)
      then have "e = ValueError ''math domain error''"
        using mask_attempts_error by (simp add: mask_fn_def)
      then show ?thesis using Inl True by (simp add: call_loop_unfold)
    next
      case (Inr r)
      obtain g1 d1 k1 where r: "r = (g1, d1, k1)" by (cases r)
      have kb: "k \<le> k1" "k1 \<le> k + 10"
        using mask_attempts_pos[of self rnd 10 k g ?mmp g1 d1 k1] Inr r
        by (simp_all add: mask_fn_def)
      show ?thesis
      proof (cases "d1 = 0")
        case True
        then show ?thesis using Inr r kb \<open>mc < num_masking_patches self\<close>
          by (simp add: call_loop_unfold)
      next
        case False
        have e: "call_loop self rnd k g mc = call_loop self rnd k1 g1 (mc + d1)"
          using Inr r False \<open>mc < num_masking_patches self\<close> by (simp add: call_loop_unfold)
        have "num_masking_patches self - (mc + d1) < num_masking_patches self - mc"
          using False \<open>mc < num_masking_patches self\<close> by simp
        from less[OF this, of k1 g1] obtain r' where
          r': "call_loop self rnd k1 g1 (mc + d1) = Some r'"
              "case r' of
                 Inl e \<Rightarrow> e = ValueError ''math domain error''
               | Inr (g', k') \<Rightarrow> k1 \<le> k' \<and> k' \<le> k1 + 10 * (num_masking_patches self - (mc + d1))"
          by blast
        have le: "k1 + 10 * (num_masking_patches self - (mc + d1))
                  \<le> k + 10 * (num_masking_patches self - mc)"
          using kb False \<open>mc < num_masking_patches self\<close> by simp
        show ?thesis using e r' le kb by (cases r') (auto split: prod.splits)
      qed
    qed
  qed
qed

lemma call_loop_returns:
  assumes "0 \<le> min_num_patches self" "0 \<le> max_num_patches self"
  shows "\<exists>g' k'. call_loop self rnd k g mc = Some (Inr (g', k'))"
proof (induction "num_masking_patches self - mc" arbitrary: k g mc rule: less_induct)
  case less
  show ?case
  proof (cases "mc < num_masking_patches self")
    case False
    then show ?thesis by (simp add: call_loop_done)
  next
    case True
    let ?mmp = "min (int (num_masking_patches self - mc)) (max_num_patches self)"
    have "0 \<le> ?mmp" using assms(2) by simp
    from mask_attempts_returns[OF assms(1) this, of rnd 10 k g] obtain g1 d1 k1 where
      m: "mask_fn self rnd k g ?mmp = Inr (g1, d1, k1)" by (auto simp: mask_fn_def)
    show ?thesis
    proof (cases "d1 = 0")
      case True
      then show ?thesis using m \<open>mc < num_masking_patches self\<close> by (simp add: call_loop_unfold)
    next
      case False
      have e: "call_loop self rnd k g mc = call_loop self rnd k1 g1 (mc + d1)"
        using m False \<open>mc < num_masking_patches self\<close> by (simp add: call_loop_unfold)
      have "num_masking_patches self - (mc + d1) < num_masking_patches self - mc"
        using False \<open>mc < num_masking_patches self\<close> by simp
      from less[OF this, of k1 g1] e show ?thesis by simp
    qed
  qed
qed




subsection \<open>The generated grid\<close>




text \<open>A call that places one block of two by two cells and is done.\<close>

lemma MaskingGenerator_call_example:
  "MaskingGenerator_call (MaskingGenerator_init (Inl 3) 4 1 None)
     (\<lambda>k. \<lparr>r_area = k, d_h = 2, d_w = 2, r_top = 1, r_left = k\<rparr>) 0
   = Some (Inr ([[0, 0, 0], [1, 1, 0], [1, 1, 0]], 1))"
proof -
  let ?self = "MaskingGenerator_init (Inl 3) 4 1 None"
  let ?rnd = "\<lambda>k. \<lparr>r_area = k, d_h = 2, d_w = 2, r_top = 1, r_left = k\<rparr>"
  let ?z = "[[0, 0, 0], [0, 0, 0], [0, 0, 0 :: int]]"
  let ?m = "[[0, 0, 0], [1, 1, 0], [1, 1, 0 :: int]]"
  have c: "num_masking_patches ?self = 4" "min_num_patches ?self = 1" "max_num_patches ?self = 4"
    "height ?self = 3" "width ?self = 3"
    by (simp_all add: MaskingGenerator_init_def)
  have "np_zeros (get_shape ?self) = replicate 3 (replicate 3 0)"
    by (simp add: np_zeros_def get_shape_def c)
  moreover have "replicate 3 (replicate 3 (0::int)) = ?z"
    by (simp add: numeral_3_eq_3)
  ultimately have z: "np_zeros (get_shape ?self) = ?z" by simp
  have a: "\<not> random_uniform (real_of_int (min_num_patches ?self)) (real_of_int 4) (r_area (?rnd 0)) < 0"
    by (simp add: c random_uniform_def random_random_def)
  have t: "randint 0 (Suc 0) (Suc 0) = Suc 0" "randint 0 (Suc 0) 0 = 0"
    by (simp_all add: randint_def)
  have b: "block_sum ?z (Suc 0) 2 0 2 = 0" by (simp add: block_sum_def numeral_2_eq_2)
  have u: "[Suc 0..<Suc 0 + 2] = [1, 2]" "[0..<0 + 2] = [0, 1::nat]" by (simp_all add: upt_rec)
  have f: "fill_block ?z 0 (Suc 0) 2 0 2 = (?m, 4)"
    unfolding fill_block_def u by (simp add: fill_cell_pair numeral_2_eq_2)
  have "mask_attempts ?self ?rnd n 0 ?z 4 = Inr (?m, 4, 1)" if "0 < n" for n
    using that a by (cases n) (simp_all add: Let_def c t b f)
  then have "mask_fn ?self ?rnd 0 ?z 4 = Inr (?m, 4, 1)"
    by (simp add: mask_fn_def)
  then have "call_loop ?self ?rnd 0 ?z 0 = Some (Inr (?m, 1))"
    by (simp add: call_loop_unfold call_loop_done c)
  then show ?thesis unfolding MaskingGenerator_call_def z .
qed

subsection \<open>Termination\<close>

text \<open>
  One iteration of the outer loop: the call raises, or nothing was placed and the loop
  ends with the grid as it is, or the count grows by \<open>delta > 0\<close> and the loop goes on
  from there.
\<close>

lemma call_loop_iteration:
  assumes "mc < num_masking_patches self"
  shows "(case mask_fn self rnd k g
                 (min (int (num_masking_patches self - mc)) (max_num_patches self)) of
            Inl e \<Rightarrow> call_loop self rnd k g mc = Some (Inl e)
          | Inr (g', d, k') \<Rightarrow>
              (d = 0 \<and> call_loop self rnd k g mc = Some (Inr (g', k')))
              \<or> (0 < d \<and> mc < mc + d
                  \<and> call_loop self rnd k g mc = call_loop self rnd k' g' (mc + d)))"
  using assms by (auto simp: call_loop_unfold split: sum.splits)

text \<open>
  Claim C6. Whatever the configuration and the random draws, a call ends: an iteration
  of the outer loop either adds \<open>delta > 0\<close> to the count, which the target bounds, or
  leaves the loop when ten attempts placed nothing, so a call that returns has made at
  most \<open>num_masking_patches\<close> iterations of at most ten attempts each. The only other
  way out is the \<open>ValueError\<close> of \<open>math.sqrt\<close>, which no configuration with non-negative
  \<open>min_num_patches\<close> and \<open>max_num_patches\<close> meets.
\<close>

theorem MaskingGenerator_call_terminates:
  "\<exists>r. MaskingGenerator_call self rnd k = Some r
      \<and> (case r of
            Inl e \<Rightarrow> e = ValueError ''math domain error''
          | Inr (msk, k') \<Rightarrow> k \<le> k' \<and> k' \<le> k + 10 * num_masking_patches self)
      \<and> (0 \<le> min_num_patches self \<and> 0 \<le> max_num_patches self
           \<longrightarrow> (\<exists>msk k'. r = Inr (msk, k')))"
proof -
  obtain r where r: "call_loop self rnd k (np_zeros (get_shape self)) 0 = Some r"
    "case r of
       Inl e \<Rightarrow> e = ValueError ''math domain error''
     | Inr (g', k') \<Rightarrow> k \<le> k' \<and> k' \<le> k + 10 * (num_masking_patches self - 0)"
    using call_loop_terminates [of self rnd k "np_zeros (get_shape self)" 0] by blast
  have "\<exists>msk k'. r = Inr (msk, k')"
    if "0 \<le> min_num_patches self \<and> 0 \<le> max_num_patches self"
    using call_loop_returns [of self rnd k "np_zeros (get_shape self)" 0] that r(1) by auto
  then show ?thesis using r by (auto simp: MaskingGenerator_call_def split: sum.splits)
qed

theorem MaskingGenerator_call_terminates_witness:
  "\<exists>msk k'. MaskingGenerator_call (MaskingGenerator_init (Inl 2) 3 1 None)
        (\<lambda>k. \<lparr>r_area = k, d_h = 5, d_w = 1, r_top = k, r_left = k\<rparr>) 0 = Some (Inr (msk, k'))
      \<and> k' \<le> 30"
proof -
  let ?self = "MaskingGenerator_init (Inl 2) 3 1 None"
  have c: "0 \<le> min_num_patches ?self \<and> 0 \<le> max_num_patches ?self"
    "num_masking_patches ?self = 3"
    by (simp_all add: MaskingGenerator_init_def)
  from MaskingGenerator_call_terminates
         [of ?self "\<lambda>k. \<lparr>r_area = k, d_h = 5, d_w = 1, r_top = k, r_left = k\<rparr>" 0] c
  show ?thesis by auto
qed

text \<open>
  A call that gives up: no drawn block fits the grid, ten attempts place nothing, and the
  grid comes back empty although three cells were requested.
\<close>

lemma MaskingGenerator_call_stalls:
  "MaskingGenerator_call (MaskingGenerator_init (Inl 2) 3 1 None)
     (\<lambda>k. \<lparr>r_area = k, d_h = 5, d_w = 1, r_top = k, r_left = k\<rparr>) 0
   = Some (Inr ([[0, 0], [0, 0]], 10))"
proof -
  let ?self = "MaskingGenerator_init (Inl 2) 3 1 None"
  let ?rnd = "\<lambda>k. \<lparr>r_area = k, d_h = 5, d_w = 1, r_top = k, r_left = k\<rparr>"
  have c: "num_masking_patches ?self = 3" "min_num_patches ?self = 1" "max_num_patches ?self = 3"
    "height ?self = 2" "width ?self = 2"
    by (simp_all add: MaskingGenerator_init_def)
  have a: "\<not> random_uniform (real_of_int (min_num_patches ?self)) (real_of_int 3) (r_area (?rnd k)) < 0" for k
    using random_uniform_nonneg[of "real_of_int (min_num_patches ?self)" "real_of_int 3"]
    by (simp add: c not_less)
  have s: "mask_attempts ?self ?rnd n k g 3 = Inr (g, 0, k + n)" for n k g
  proof (induction n arbitrary: k)
    case 0
    show ?case by simp
  next
    case (Suc n)
    show ?case using a[of k] Suc.IH[of "Suc k"] by (simp add: Let_def c)
  qed
  have m: "mask_fn ?self ?rnd 0 (np_zeros (get_shape ?self)) 3 = Inr (np_zeros (get_shape ?self), 0, 10)"
    using s[of 10 0] by (simp add: mask_fn_def)
  have "np_zeros (get_shape ?self) = replicate 2 (replicate 2 0)"
    by (simp add: np_zeros_def get_shape_def c)
  moreover have "replicate 2 (replicate 2 (0::int)) = [[0, 0], [0, 0]]"
    by (simp add: numeral_2_eq_2)
  ultimately have z: "np_zeros (get_shape ?self) = [[0, 0], [0, 0]]" by simp
  have "call_loop ?self ?rnd 0 (np_zeros (get_shape ?self)) 0
        = Some (Inr (np_zeros (get_shape ?self), 10))"
    using m by (simp add: call_loop_unfold c)
  then show ?thesis unfolding MaskingGenerator_call_def z .
qed

section \<open>Properties of the transformer\<close>

subsection \<open>Shapes through the layers\<close>

lemma bnd_Inr [simp]: "bnd (Inr v) f = f v"
  by (simp add: bnd_def)

lemma bnd_Inl [simp]: "bnd (Inl e) f = Inl e"
  by (simp add: bnd_def)

lemma bnd_eq_Inr: "bnd m f = Inr y \<longleftrightarrow> (\<exists>v. m = Inr v \<and> f v = Inr y)"
  by (cases m) simp_all

lemma broadcast_rev_same: "broadcast_rev s s = Some s"
  by (induction s) simp_all

lemma broadcast_shapes_same: "broadcast_shapes s s = Some s"
  by (simp add: broadcast_shapes_def broadcast_rev_same)

lemma add_same_shape:
  "shape x = shape y \<Longrightarrow> add (Some x) (Some y) = Inr \<lparr>shape = shape x, val = App Add [val x, val y]\<rparr>"
  by (simp add: add_def broadcast_shapes_same)

lemma with_pos_embed_same:
  "(case pos of None \<Rightarrow> True | Some p \<Rightarrow> shape p = shape x)
   \<Longrightarrow> \<exists>q. with_pos_embed x pos = Inr q \<and> shape q = shape x"
  by (cases pos) (simp_all add: with_pos_embed_def add_same_shape)

lemma MultiheadAttention_init_Inr:
  "MultiheadAttention_init e h pr = Inr m \<longleftrightarrow>
     (h \<noteq> 0 \<and> (e div h) * h = e \<and> m = \<lparr>embed_dim = e, num_heads = h, attn_dropout = pr\<rparr>)"
  by (auto simp: MultiheadAttention_init_def)

lemma Dropout_init_Inr:
  "Dropout_init pr = Inr m \<longleftrightarrow> (0 \<le> pr \<and> pr \<le> 1 \<and> m = \<lparr>drop_p = pr\<rparr>)"
  by (auto simp: Dropout_init_def)

lemma TransformerEncoderLayer_init_Inr:
  assumes "TransformerEncoderLayer_init d nh ff pr nb = Inr layer"
  shows "embed_dim (enc_self_attn layer) = d \<and> enc_linear1 layer = Linear_init d ff
     \<and> enc_linear2 layer = Linear_init ff d \<and> enc_norm1 layer = LayerNorm_init d
     \<and> enc_norm2 layer = LayerNorm_init d \<and> enc_normalize_before layer = nb"
  using assms
  by (auto simp: TransformerEncoderLayer_init_def bnd_eq_Inr MultiheadAttention_init_Inr Dropout_init_Inr)

lemma TransformerDecoderLayer_init_Inr:
  assumes "TransformerDecoderLayer_init d nh ff pr = Inr layer"
  shows "embed_dim (dec_self_attn layer) = d \<and> embed_dim (dec_cross_attn_image layer) = d
     \<and> dec_linear1 layer = Linear_init d ff
     \<and> dec_linear2 layer = Linear_init ff d \<and> dec_norm1 layer = LayerNorm_init d
     \<and> dec_norm3 layer = LayerNorm_init d \<and> dec_norm4 layer = LayerNorm_init d"
  using assms
  by (auto simp: TransformerDecoderLayer_init_def bnd_eq_Inr MultiheadAttention_init_Inr Dropout_init_Inr)

lemmas module_defs = LayerNorm_forward_def Linear_forward_def Dropout_forward_def activation_def
  MultiheadAttention_forward_def LayerNorm_init_def Linear_init_def with_pos_embed_def opt_val_def

lemma enc_layer_shape:
  assumes "TransformerEncoderLayer_init d nh ff pr nb = Inr layer"
    and "shape src = [S, B, d]" "shape m = [B, S]" "shape pos = [S, B, d]"
  shows "\<exists>y. TransformerEncoderLayer_forward layer src None (Some m) (Some pos) = Inr y
            \<and> shape y = [S, B, d]"
  using TransformerEncoderLayer_init_Inr[OF assms(1)] assms(2-)
  by (simp add: TransformerEncoderLayer_forward_def enc_forward_pre_def enc_forward_post_def
        module_defs add_same_shape)

lemma dec_layer_shape:
  assumes "TransformerDecoderLayer_init d nh ff pr = Inr layer"
    and "shape tgt = [Q, B, d]" "shape memory = [S, B, d]" "shape m = [B, S]"
    and "case pos of None \<Rightarrow> True | Some p \<Rightarrow> shape p = [S, B, d]"
    and "case query_pos of None \<Rightarrow> True | Some p \<Rightarrow> shape p = [Q, B, d]"
  shows "\<exists>y. TransformerDecoderLayer_forward layer tgt memory None None None (Some m) pos query_pos = Inr y
            \<and> shape y = [Q, B, d]"
  using TransformerDecoderLayer_init_Inr[OF assms(1)] assms(2-)
  by (cases pos; cases query_pos) (simp_all add: TransformerDecoderLayer_forward_def
        module_defs add_same_shape)

lemma encoder_loop_shape:
  assumes "TransformerEncoderLayer_init d nh ff pr nb = Inr layer"
    and "shape src = [S, B, d]" "shape m = [B, S]" "shape pos = [S, B, d]"
  shows "\<exists>y. encoder_loop (replicate n layer) src None (Some m) (Some pos) = Inr y
            \<and> shape y = [S, B, d]"
  using assms(2)
proof (induction n arbitrary: src)
  case 0
  then show ?case by simp
next
  case (Suc n)
  from enc_layer_shape[OF assms(1) Suc.prems assms(3,4)] obtain y where
    y: "TransformerEncoderLayer_forward layer src None (Some m) (Some pos) = Inr y"
       "shape y = [S, B, d]" by blast
  from Suc.IH[OF y(2)] y(1) show ?case by simp
qed

lemma Transformer_init_Inr:
  assumes "Transformer_init a = Inr tr"
  shows "\<exists>el dl. TransformerEncoderLayer_init (a_d_model a) (a_nhead a) (a_dim_feedforward a)
                    (a_dropout a) (a_normalize_before a) = Inr el
      \<and> TransformerDecoderLayer_init (a_d_model a) (a_nhead a) (a_dim_feedforward a)
                    (a_dropout a) = Inr dl
      \<and> pass_pos_and_query tr = a_pass_pos_and_query a
      \<and> encoder tr = \<lparr>enc_layers = replicate (a_num_encoder_layers a) el,
                       enc_num_layers = a_num_encoder_layers a,
                       enc_norm = (if a_normalize_before a then Some (LayerNorm_init (a_d_model a)) else None)\<rparr>
      \<and> decoder tr = \<lparr>dec_layers = replicate (a_num_decoder_layers a) dl,
                       dec_num_layers = a_num_decoder_layers a,
                       dec_norm = Some (LayerNorm_init (a_d_model a)),
                       return_intermediate = a_return_intermediate_dec a\<rparr>
      \<and> d_model tr = a_d_model a"
  using assms
  by (auto simp: Transformer_init_def bnd_eq_Inr Let_def TransformerEncoder_init_def
        TransformerDecoder_init_def get_clones_def)

lemma TransformerEncoder_forward_shape:
  assumes "Transformer_init a = Inr tr"
    and "shape src = [S, B, a_d_model a]" "shape m = [B, S]" "shape pos = [S, B, a_d_model a]"
  shows "\<exists>y. TransformerEncoder_forward (encoder tr) src None (Some m) (Some pos) = Inr y
            \<and> shape y = [S, B, a_d_model a]"
proof -
  from Transformer_init_Inr[OF assms(1)] obtain el where
    el: "TransformerEncoderLayer_init (a_d_model a) (a_nhead a) (a_dim_feedforward a)
                    (a_dropout a) (a_normalize_before a) = Inr el"
    and enc: "encoder tr = \<lparr>enc_layers = replicate (a_num_encoder_layers a) el,
                       enc_num_layers = a_num_encoder_layers a,
                       enc_norm = (if a_normalize_before a then Some (LayerNorm_init (a_d_model a)) else None)\<rparr>"
    by blast
  from encoder_loop_shape[OF el assms(2-4), of "a_num_encoder_layers a"] obtain y where
    "encoder_loop (replicate (a_num_encoder_layers a) el) src None (Some m) (Some pos) = Inr y"
    "shape y = [S, B, a_d_model a]" by blast
  then show ?thesis
    by (simp add: TransformerEncoder_forward_def enc LayerNorm_forward_def LayerNorm_init_def)
qed

lemma Transformer_fuse_default:
  assumes "pass_pos_and_query tr"
    and "valid_inputs d B H W Q T src msk query_embed pos_embed text_memory tam"
  shows "\<exists>f qe. Transformer_fuse tr (Some src) (Some msk) (Some query_embed) (Some pos_embed)
                (Some text_memory) (Some tam) = Inr f
      \<and> shape (f_src f) = [H * W + T, B, d]
      \<and> shape (f_mask f) = [B, H * W + T]
      \<and> shape (f_pos_embed f) = [H * W + T, B, d]
      \<and> f_query_embed f = Some qe \<and> shape qe = [Q, B, d]
      \<and> shape (f_tgt f) = [Q, B, d]
      \<and> f_text_memory f = Some text_memory"
  using assms
  by (simp add: valid_inputs_def Transformer_fuse_def get_attr_def unpack4_def flatten_def
        permute_def unsqueeze_def repeat_def zeros_like_def cat_def Let_def)

lemma Transformer_encode_default:
  assumes init: "Transformer_init a = Inr tr" and pq: "pass_pos_and_query tr"
    and "0 < T"
    and f: "shape (f_src f) = [HW + T, B, a_d_model a]" "shape (f_mask f) = [B, HW + T]"
      "shape (f_pos_embed f) = [HW + T, B, a_d_model a]"
      "f_query_embed f = Some qe" "shape qe = [Q, B, a_d_model a]"
      "shape (f_tgt f) = [Q, B, a_d_model a]"
      "f_text_memory f = Some tm" "shape tm = T # rest"
  shows "\<exists>e. Transformer_encode tr f = Inr e
      \<and> TransformerEncoder_forward (encoder tr) (f_src f) None (Some (f_mask f))
            (Some (f_pos_embed f)) = Inr (e_img_memory e)
      \<and> shape (e_img_memory e) = [HW + T, B, a_d_model a]
      \<and> slice_from_end T (e_img_memory e) = Inr (e_text_memory e)
      \<and> shape (e_text_memory e) = [T, B, a_d_model a]
      \<and> shape (e_tgt e) = [Q, B, a_d_model a]
      \<and> e_mask e = f_mask f \<and> e_pos_embed e = Some (f_pos_embed f)
      \<and> e_query_embed e = Some qe"
proof -
  from TransformerEncoder_forward_shape[OF init f(1,2,3)] obtain y where
    y: "TransformerEncoder_forward (encoder tr) (f_src f) None (Some (f_mask f))
          (Some (f_pos_embed f)) = Inr y" "shape y = [HW + T, B, a_d_model a]" by blast
  show ?thesis using y pq f \<open>0 < T\<close>
    by (simp add: Transformer_encode_def len_def slice_from_end_def assert_shape1_def
          shape_at_def get_attr_def zeros_like_def)
qed

lemma decoder_loop_shape:
  assumes dl: "TransformerDecoderLayer_init d nh ff pr = Inr dl"
    and "dec_norm self = Some (LayerNorm_init d)"
    and "shape memory = [S, B, d]" "shape m = [B, S]"
    and "case pos of None \<Rightarrow> True | Some p \<Rightarrow> shape p = [S, B, d]"
    and "case query_pos of None \<Rightarrow> True | Some p \<Rightarrow> shape p = [Q, B, d]"
    and "shape out = [Q, B, d]" "\<forall>t \<in> set im. shape t = [Q, B, d]"
  shows "\<exists>out' im'. decoder_loop self (replicate n dl) out im memory None None None
              (Some m) pos query_pos = Inr (out', im')
      \<and> shape out' = [Q, B, d] \<and> (\<forall>t \<in> set im'. shape t = [Q, B, d])
      \<and> length im' = (if return_intermediate self then length im + n else length im)"
  using assms(7,8)
proof (induction n arbitrary: out im)
  case 0
  then show ?case by simp
next
  case (Suc n)
  from dec_layer_shape[OF dl Suc.prems(1) assms(3,4,5,6)] obtain y where
    y: "TransformerDecoderLayer_forward dl out memory None None None (Some m) pos query_pos = Inr y"
       "shape y = [Q, B, d]" by blast
  let ?ny = "\<lparr>shape = shape y, val = App (Call Norm0) [val y]\<rparr>"
  have ny: "call_norm (dec_norm self) y = Inr ?ny"
    using y(2) assms(2) by (simp add: call_norm_def LayerNorm_forward_def LayerNorm_init_def)
  show ?case
  proof (cases "return_intermediate self")
    case True
    have "\<forall>t \<in> set (im @ [?ny]). shape t = [Q, B, d]" using Suc.prems(2) y(2) by simp
    from Suc.IH[OF y(2) this] show ?thesis using y(1) ny True by simp
  next
    case False
    from Suc.IH[OF y(2) Suc.prems(2)] show ?thesis using y(1) False by simp
  qed
qed

lemma stack_same_shape:
  assumes "ts \<noteq> []" "\<forall>t \<in> set ts. shape t = s"
  shows "stack ts = Inr \<lparr>shape = length ts # s, val = App Stack (map val ts)\<rparr>"
  using assms by (cases ts) (simp_all add: stack_def)

lemma TransformerDecoder_forward_shape:
  assumes dl: "TransformerDecoderLayer_init d nh ff pr = Inr dl"
    and self: "self = \<lparr>dec_layers = replicate n dl, dec_num_layers = n,
                       dec_norm = Some (LayerNorm_init d), return_intermediate = ri\<rparr>"
    and "shape memory = [S, B, d]" "shape m = [B, S]"
    and "case pos of None \<Rightarrow> True | Some p \<Rightarrow> shape p = [S, B, d]"
    and "case query_pos of None \<Rightarrow> True | Some p \<Rightarrow> shape p = [Q, B, d]"
    and "shape tgt = [Q, B, d]" and "ri \<longrightarrow> 0 < n"
  shows "\<exists>hs. TransformerDecoder_forward self tgt memory None None None (Some m) pos query_pos = Inr hs
      \<and> shape hs = (if ri then [n, Q, B, d] else [Q, B, d])"
proof -
  have dn: "dec_norm self = Some (LayerNorm_init d)" "return_intermediate self = ri"
    "dec_layers self = replicate n dl" using self by simp_all
  from decoder_loop_shape[OF dl dn(1) assms(3,4,5,6,7), of "[]" n] obtain out' im' where
    l: "decoder_loop self (replicate n dl) tgt [] memory None None None (Some m) pos query_pos
          = Inr (out', im')" "shape out' = [Q, B, d]" "\<forall>t \<in> set im'. shape t = [Q, B, d]"
       "length im' = (if ri then n else 0)" using dn(2) by auto
  let ?o = "\<lparr>shape = shape out', val = App (Call Norm0) [val out']\<rparr>"
  have n: "LayerNorm_forward Norm0 (LayerNorm_init d) out' = Inr ?o"
    using l(2) by (simp add: LayerNorm_forward_def LayerNorm_init_def)
  show ?thesis
  proof (cases ri)
    case False
    then show ?thesis using l n dn
      by (simp add: TransformerDecoder_forward_def)
  next
    case True
    then have ne: "im' \<noteq> []" using l(4) assms(8) by auto
    let ?i = "butlast im' @ [?o]"
    have "\<forall>t \<in> set ?i. shape t = [Q, B, d]" using l(2,3) by (auto dest: in_set_butlastD)
    moreover have "?i \<noteq> []" by simp
    ultimately have "stack ?i = Inr \<lparr>shape = length ?i # [Q, B, d], val = App Stack (map val ?i)\<rparr>"
      by (rule stack_same_shape[rotated])
    moreover have "length ?i = n" using l(4) True ne by (cases im') auto
    ultimately show ?thesis using l n dn True ne
      by (simp add: TransformerDecoder_forward_def pop_append_def)
  qed
qed

lemma Transformer_forward_default_shape:
  assumes init: "Transformer_init a = Inr tr" and pq: "a_pass_pos_and_query a"
    and v: "valid_inputs (a_d_model a) B H W Q T src msk query_embed pos_embed text_memory tam"
    and n: "a_return_intermediate_dec a \<longrightarrow> 0 < a_num_decoder_layers a"
  shows "\<exists>hs. Transformer_forward tr (Some src) (Some msk) (Some query_embed) (Some pos_embed)
                (Some text_memory) img_memory (Some tam) = Inr hs
      \<and> shape hs = (if a_return_intermediate_dec a
                     then [a_num_decoder_layers a, B, Q, a_d_model a]
                     else [Q, a_d_model a, B])"
proof -
  from Transformer_init_Inr[OF init] obtain dl where
    dl: "TransformerDecoderLayer_init (a_d_model a) (a_nhead a) (a_dim_feedforward a)
                    (a_dropout a) = Inr dl"
    and pq': "pass_pos_and_query tr"
    and dec: "decoder tr = \<lparr>dec_layers = replicate (a_num_decoder_layers a) dl,
                       dec_num_layers = a_num_decoder_layers a,
                       dec_norm = Some (LayerNorm_init (a_d_model a)),
                       return_intermediate = a_return_intermediate_dec a\<rparr>"
    using pq by auto
  from Transformer_fuse_default[OF pq' v] obtain f qe where
    f: "Transformer_fuse tr (Some src) (Some msk) (Some query_embed) (Some pos_embed)
                (Some text_memory) (Some tam) = Inr f"
      "shape (f_src f) = [H * W + T, B, a_d_model a]"
      "shape (f_mask f) = [B, H * W + T]"
      "shape (f_pos_embed f) = [H * W + T, B, a_d_model a]"
      "f_query_embed f = Some qe" "shape qe = [Q, B, a_d_model a]"
      "shape (f_tgt f) = [Q, B, a_d_model a]"
      "f_text_memory f = Some text_memory" by blast
  have T: "0 < T" "shape text_memory = T # [B, a_d_model a]" using v by (simp_all add: valid_inputs_def)
  from Transformer_encode_default[OF init pq' T(1) f(2-8) T(2)] obtain e where
    e: "Transformer_encode tr f = Inr e"
      "shape (e_img_memory e) = [H * W + T, B, a_d_model a]"
      "shape (e_tgt e) = [Q, B, a_d_model a]"
      "e_mask e = f_mask f" "e_pos_embed e = Some (f_pos_embed f)"
      "e_query_embed e = Some qe" by blast
  have "\<exists>hs. TransformerDecoder_forward (decoder tr) (e_tgt e) (e_img_memory e) None None None
           (Some (e_mask e)) (e_pos_embed e) (e_query_embed e) = Inr hs
      \<and> shape hs = (if a_return_intermediate_dec a
             then [a_num_decoder_layers a, Q, B, a_d_model a] else [Q, B, a_d_model a])"
    by (rule TransformerDecoder_forward_shape[OF dl dec e(2)])
       (simp_all add: e f n)
  then obtain hs where
    hs: "TransformerDecoder_forward (decoder tr) (e_tgt e) (e_img_memory e) None None None
           (Some (e_mask e)) (e_pos_embed e) (e_query_embed e) = Inr hs"
        "shape hs = (if a_return_intermediate_dec a
             then [a_num_decoder_layers a, Q, B, a_d_model a] else [Q, B, a_d_model a])" by blast
  show ?thesis using f(1) e(1) hs
    by (simp add: Transformer_forward_def Transformer_decode_def transpose_dims_def)
qed

lemma Transformer_forward_alt_mode:
  assumes "\<not> pass_pos_and_query tr"
  shows "Transformer_forward tr src msk query_embed pos_embed text_memory img_memory tam \<noteq> Inr hs"
proof -
  have "Transformer_fuse tr src msk query_embed pos_embed text_memory tam \<noteq> Inr f" for f
    using assms
    by (auto simp: Transformer_fuse_def bnd_eq_Inr cat_def split: if_splits)
  then show ?thesis by (auto simp: Transformer_forward_def bnd_eq_Inr)
qed

lemma ex_valid:
  "valid_inputs 256 2 20 30 100 12 ex_src ex_mask ex_query_embed ex_pos_embed ex_text_memory
     ex_text_attention_mask"
  by (simp add: valid_inputs_def ex_src_def ex_mask_def ex_query_embed_def ex_pos_embed_def
        ex_text_memory_def ex_text_attention_mask_def input_tensor_def)

lemma Transformer_init_ok:
  assumes "0 < a_nhead a" "a_nhead a dvd a_d_model a" "0 \<le> a_dropout a" "a_dropout a \<le> 1"
  shows "\<exists>tr. Transformer_init a = Inr tr"
proof -
  have "a_d_model a div a_nhead a * a_nhead a = a_d_model a" using assms(2) by simp
  then show ?thesis using assms
    by (simp add: Transformer_init_def TransformerEncoderLayer_init_def
          TransformerDecoderLayer_init_def MultiheadAttention_init_def Dropout_init_def Let_def)
qed

lemma mdetr_transformer_ok:
  "\<exists>tr. mdetr_transformer = Inr tr \<and> pass_pos_and_query tr \<and> return_intermediate (decoder tr)"
proof -
  let ?a = "default_args\<lparr>a_d_model := 256, a_nhead := 8, a_num_encoder_layers := 6,
       a_num_decoder_layers := 6, a_dim_feedforward := 2048, a_dropout := 0.1,
       a_return_intermediate_dec := True, a_pass_pos_and_query := True\<rparr>"
  obtain tr where tr: "Transformer_init ?a = Inr tr"
    using Transformer_init_ok[of ?a] by (auto simp: default_args_def)
  from Transformer_init_Inr[OF tr] tr show ?thesis by (auto simp: mdetr_transformer_def)
qed

lemma Transformer_fuse_alt_mode:
  assumes "\<not> pass_pos_and_query tr"
    and "valid_inputs d B H W Q T src msk query_embed pos_embed text_memory tam"
  shows "Transformer_fuse tr (Some src) (Some msk) (Some query_embed) (Some pos_embed)
                (Some text_memory) (Some tam) = Inl TypeError"
  using assms
  by (simp add: valid_inputs_def Transformer_fuse_def get_attr_def unpack4_def flatten_def
        permute_def unsqueeze_def repeat_def zeros_like_def cat_def Let_def scale_def
        add_same_shape)

subsection \<open>The two modes of Transformer.forward\<close>

text \<open>
  Claim C1 asks that \<open>forward\<close> completes under both values of \<open>pass_pos_and_query\<close>.
  With the flag true it does, for all well-formed inputs
  (\<open>Transformer_forward_default_shape\<close>). With the flag false it never returns
  (\<open>Transformer_forward_alt_mode\<close>): line 173 sets \<open>pos_embed\<close> to \<open>None\<close>, and line 185
  passes it to \<open>torch.cat\<close>. Here is the run on a concrete input for the model of the
  repository's factory with the flag turned off.
\<close>

theorem Transformer_forward_alternate_mode_raises:
  "\<exists>tr. Transformer_init (default_args\<lparr>a_d_model := 256, a_return_intermediate_dec := True,
                a_pass_pos_and_query := False\<rparr>) = Inr tr
     \<and> Transformer_forward tr (Some ex_src) (Some ex_mask) (Some ex_query_embed)
          (Some ex_pos_embed) (Some ex_text_memory) None (Some ex_text_attention_mask)
        = Inl TypeError"
proof -
  let ?a = "default_args\<lparr>a_d_model := 256, a_return_intermediate_dec := True,
                a_pass_pos_and_query := False\<rparr>"
  obtain tr where tr: "Transformer_init ?a = Inr tr"
    using Transformer_init_ok[of ?a] by (auto simp: default_args_def)
  have "\<not> pass_pos_and_query tr" using Transformer_init_Inr[OF tr] by auto
  from Transformer_fuse_alt_mode[OF this ex_valid] tr show ?thesis
    by (simp add: Transformer_forward_def)
qed

subsection \<open>The shape of the result\<close>

text \<open>
  Claim C2 gives the result the shape \<open>[num_decoder_layers, batch, num_queries, d_model]\<close>
  with intermediate collection, which holds (\<open>Transformer_forward_default_shape\<close>), and
  \<open>[1, batch, num_queries, d_model]\<close> without. Without it the decoder returns the
  three-dimensional \<open>output\<close> itself, and \<open>hs.transpose(1, 2)\<close> then swaps the batch axis
  with the model axis: the result is \<open>[num_queries, d_model, batch]\<close>. Here is the run for
  \<open>Transformer(d_model=256)\<close>, whose \<open>return_intermediate_dec\<close> is the default \<open>False\<close>.
\<close>

theorem Transformer_forward_final_layer_only_shape:
  "\<exists>tr hs. Transformer_init (default_args\<lparr>a_d_model := 256\<rparr>) = Inr tr
     \<and> Transformer_forward tr (Some ex_src) (Some ex_mask) (Some ex_query_embed)
          (Some ex_pos_embed) (Some ex_text_memory) None (Some ex_text_attention_mask)
        = Inr hs
     \<and> shape hs = [100, 256, 2]"
proof -
  let ?a = "default_args\<lparr>a_d_model := 256\<rparr>"
  obtain tr where tr: "Transformer_init ?a = Inr tr"
    using Transformer_init_ok[of ?a] by (auto simp: default_args_def)
  have "valid_inputs (a_d_model ?a) 2 20 30 100 12 ex_src ex_mask ex_query_embed ex_pos_embed
          ex_text_memory ex_text_attention_mask" using ex_valid by simp
  from Transformer_forward_default_shape[OF tr _ this, of None] tr show ?thesis
    by (simp add: default_args_def)
qed

subsection \<open>Normalization order and the decoder's stack\<close>

lemma add_Inr: "add a b = Inr y \<Longrightarrow> \<exists>x z. a = Some x \<and> b = Some z \<and> val y = App Add [val x, val z]"
  by (auto simp: add_def split: option.splits)

lemma LayerNorm_forward_Inr: "LayerNorm_forward a m x = Inr y \<Longrightarrow> val y = App (Call a) [val x]"
  by (auto simp: LayerNorm_forward_def split: if_splits)

lemma Linear_forward_Inr: "Linear_forward a m x = Inr y \<Longrightarrow> val y = App (Call a) [val x]"
  by (auto simp: Linear_forward_def split: if_splits)

lemma MultiheadAttention_forward_Inr:
  "MultiheadAttention_forward a m q k v am kpm = Inr y
   \<Longrightarrow> \<exists>masks. val y = App (Call a) (val q # val k # val v # masks)"
  by (auto simp: MultiheadAttention_forward_def split: if_splits list.splits)

lemma post_norm_block:
  assumes "add (Some x) (Some f) = Inr s" "LayerNorm_forward a m s = Inr y" "is_layer_norm a"
  shows "residual_block (val y) = Some (Post_norm, val x)"
  using LayerNorm_forward_Inr[OF assms(2)] add_Inr[OF assms(1)] assms(3)
  by (auto simp: residual_block_def)

lemma dec_layer_orders:
  assumes "TransformerDecoderLayer_forward layer tgt memory tm mm tk mk pos qp = Inr y"
  shows "block_orders 3 (val y) = [Post_norm, Post_norm, Post_norm]"
proof -
  from assms obtain a1 s1 t1 a2 s2 t2 a3 s3 where
        s1: "add (Some tgt) (Some (Dropout_forward Dropout1 (dec_dropout1 layer) a1)) = Inr s1"
    and t1: "LayerNorm_forward Norm1 (dec_norm1 layer) s1 = Inr t1"
    and s2: "add (Some t1) (Some (Dropout_forward Dropout3 (dec_dropout3 layer) a2)) = Inr s2"
    and t2: "LayerNorm_forward Norm3 (dec_norm3 layer) s2 = Inr t2"
    and s3: "add (Some t2) (Some (Dropout_forward Dropout4 (dec_dropout4 layer) a3)) = Inr s3"
    and y: "LayerNorm_forward Norm4 (dec_norm4 layer) s3 = Inr y"
    unfolding TransformerDecoderLayer_forward_def bnd_eq_Inr by blast
  have "residual_block (val y) = Some (Post_norm, val t2)"
       "residual_block (val t2) = Some (Post_norm, val t1)"
       "residual_block (val t1) = Some (Post_norm, val tgt)"
    using post_norm_block[OF s3 y] post_norm_block[OF s2 t2] post_norm_block[OF s1 t1] by simp_all
  then show ?thesis by (simp add: numeral_3_eq_3)
qed

lemma enc_layer_orders:
  assumes "TransformerEncoderLayer_forward layer src sm sk pos = Inr y"
  shows "block_orders 2 (val y)
         = (if enc_normalize_before layer then [Pre_norm, Pre_norm] else [Post_norm, Post_norm])"
proof (cases "enc_normalize_before layer")
  case False
  with assms have "enc_forward_post layer src sm sk pos = Inr y"
    by (simp add: TransformerEncoderLayer_forward_def)
  then obtain a1 s1 t1 a2 s2 where
        s1: "add (Some src) (Some (Dropout_forward Dropout1 (enc_dropout1 layer) a1)) = Inr s1"
    and t1: "LayerNorm_forward Norm1 (enc_norm1 layer) s1 = Inr t1"
    and s2: "add (Some t1) (Some (Dropout_forward Dropout2 (enc_dropout2 layer) a2)) = Inr s2"
    and y: "LayerNorm_forward Norm2 (enc_norm2 layer) s2 = Inr y"
    unfolding enc_forward_post_def bnd_eq_Inr by blast
  have "residual_block (val y) = Some (Post_norm, val t1)"
       "residual_block (val t1) = Some (Post_norm, val src)"
    using post_norm_block[OF s2 y] post_norm_block[OF s1 t1] by simp_all
  then show ?thesis using False by (simp add: numeral_2_eq_2)
next
  case True
  with assms have "enc_forward_pre layer src sm sk pos = Inr y"
    by (simp add: TransformerEncoderLayer_forward_def)
  then obtain n1 q a1 s1 n2 h a2 where
        n1: "LayerNorm_forward Norm1 (enc_norm1 layer) src = Inr n1"
    and a1: "MultiheadAttention_forward Self_attn (enc_self_attn layer) q q n1 sm sk = Inr a1"
    and s1: "add (Some src) (Some (Dropout_forward Dropout1 (enc_dropout1 layer) a1)) = Inr s1"
    and n2: "LayerNorm_forward Norm2 (enc_norm2 layer) s1 = Inr n2"
    and h: "Linear_forward Linear1 (enc_linear1 layer) n2 = Inr h"
    and a2: "Linear_forward Linear2 (enc_linear2 layer)
               (Dropout_forward Dropout0 (enc_dropout layer) (activation h)) = Inr a2"
    and y: "add (Some s1) (Some (Dropout_forward Dropout2 (enc_dropout2 layer) a2)) = Inr y"
    unfolding enc_forward_pre_def bnd_eq_Inr by blast
  have "val y = App Add [val s1, App (Call Dropout2) [App (Call Linear2) [App (Call Dropout0)
                  [App (Call Activation) [App (Call Linear1) [App (Call Norm2) [val s1]]]]]]]"
    using add_Inr[OF y] Linear_forward_Inr[OF a2] Linear_forward_Inr[OF h]
      LayerNorm_forward_Inr[OF n2] by (auto simp: Dropout_forward_def activation_def)
  then have 1: "residual_block (val y) = Some (Pre_norm, val s1)"
    by (simp add: residual_block_def)
  obtain masks where "val a1 = App (Call Self_attn) (val q # val q # val n1 # masks)"
    using MultiheadAttention_forward_Inr[OF a1] by blast
  then have "val s1 = App Add [val src, App (Call Dropout1)
                  [App (Call Self_attn) (val q # val q # App (Call Norm1) [val src] # masks)]]"
    using add_Inr[OF s1] LayerNorm_forward_Inr[OF n1] by (auto simp: Dropout_forward_def)
  then have 2: "residual_block (val s1) = Some (Pre_norm, val src)"
    by (simp add: residual_block_def)
  show ?thesis using True 1 2 by (simp add: numeral_2_eq_2)
qed

lemma decoder_loop_outputs:
  assumes "return_intermediate self" "dec_norm self = Some n"
    and "decoder_loop self ls out im memory tm mm tk mk pos qp = Inr (out', im')"
  shows "\<exists>outs normed. layer_outputs ls out memory tm mm tk mk pos qp = Inr outs
      \<and> length outs = length ls
      \<and> map (LayerNorm_forward Norm0 n) outs = map Inr normed
      \<and> im' = im @ normed \<and> out' = last (out # outs)"
  using assms(3)
proof (induction ls arbitrary: out im)
  case Nil
  then show ?case by simp
next
  case (Cons l ls)
  from Cons.prems assms(1,2) obtain y ny where
    y: "TransformerDecoderLayer_forward l out memory tm mm tk mk pos qp = Inr y"
    and ny: "LayerNorm_forward Norm0 n y = Inr ny"
    and r: "decoder_loop self ls y (im @ [ny]) memory tm mm tk mk pos qp = Inr (out', im')"
    by (auto simp: bnd_eq_Inr call_norm_def)
  from Cons.IH[OF r] obtain outs normed where
    o: "layer_outputs ls y memory tm mm tk mk pos qp = Inr outs" "length outs = length ls"
       "map (LayerNorm_forward Norm0 n) outs = map Inr normed"
       "im' = (im @ [ny]) @ normed" "out' = last (y # outs)" by blast
  have "layer_outputs (l # ls) out memory tm mm tk mk pos qp = Inr (y # outs)"
    using y o(1) by simp
  moreover have "map (LayerNorm_forward Norm0 n) (y # outs) = map Inr (ny # normed)"
    using ny o(3) by simp
  ultimately show ?case using o(2,4,5) 
    by (intro exI[of _ "y # outs"] exI[of _ "ny # normed"]) simp
qed

lemma TransformerDecoder_forward_stack:
  assumes "return_intermediate self" "dec_norm self = Some n"
    and "TransformerDecoder_forward self tgt memory tm mm tk mk pos qp = Inr hs"
  shows "\<exists>outs normed. layer_outputs (dec_layers self) tgt memory tm mm tk mk pos qp = Inr outs
      \<and> length outs = length (dec_layers self) \<and> length normed = length (dec_layers self)
      \<and> map (LayerNorm_forward Norm0 n) outs = map Inr normed
      \<and> stack normed = Inr hs
      \<and> shape hs = length (dec_layers self) # shape (last normed)
      \<and> val hs = App Stack (map val normed)"
proof -
  from assms obtain out' im' outp im2 where
    l: "decoder_loop self (dec_layers self) tgt [] memory tm mm tk mk pos qp = Inr (out', im')"
    and n: "LayerNorm_forward Norm0 n out' = Inr outp"
    and p: "pop_append im' outp = Inr im2"
    and s: "stack im2 = Inr hs"
    by (auto simp: TransformerDecoder_forward_def bnd_eq_Inr split: prod.splits)
  from decoder_loop_outputs[OF assms(1,2) l] obtain outs normed where
    o: "layer_outputs (dec_layers self) tgt memory tm mm tk mk pos qp = Inr outs"
       "length outs = length (dec_layers self)"
       "map (LayerNorm_forward Norm0 n) outs = map Inr normed"
       "im' = normed" "out' = last (tgt # outs)" by auto
  have len: "length normed = length outs" using o(3) by (metis length_map)
  have ne: "normed \<noteq> []" "im2 = butlast normed @ [outp]"
    using p o(4) by (auto simp: pop_append_def split: if_splits)
  then have one: "outs \<noteq> []" using len by auto
  then have "out' = last outs" using o(5) by simp
  moreover have "LayerNorm_forward Norm0 n (last outs) = Inr (last normed)"
    using o(3) one ne(1) by (metis last_map)
  ultimately have "outp = last normed" using n by simp
  then have im2: "im2 = normed" using ne by simp
  have "shape hs = length normed # shape (last normed) \<and> val hs = App Stack (map val normed)"
  proof -
    obtain t rest where c: "normed = t # rest" using ne(1) by (cases normed) auto
    have a: "\<forall>r \<in> set rest. shape r = shape t"
      and h: "hs = \<lparr>shape = length normed # shape t, val = App Stack (map val normed)\<rparr>"
      using s unfolding im2 c by (auto simp: stack_def split: if_splits)
    have "last normed \<in> set normed" using ne(1) by simp
    then have "shape (last normed) = shape t" using a c by auto
    then show ?thesis using h by simp
  qed
  then show ?thesis using o(1,2,3) len s im2 by auto
qed

text \<open>
  Claim C3, as amended. The decoder layer has one ordering: whatever its configuration
  and inputs, each of its three residual blocks (self-attention, cross-attention,
  feed-forward) normalizes after the residual addition. The encoder layer has both,
  chosen at construction by \<open>normalize_before\<close>: with it, both blocks normalize their
  input before the sub-block; without it, both normalize after the addition.
\<close>

theorem Transformer_layers_norm_order:
  "(TransformerDecoderLayer_forward dl tgt memory tm mm tk mk pos qp = Inr y
      \<longrightarrow> block_orders 3 (val y) = [Post_norm, Post_norm, Post_norm])
   \<and> (TransformerEncoderLayer_forward el src sm sk pos' = Inr y'
      \<longrightarrow> block_orders 2 (val y')
          = (if enc_normalize_before el then [Pre_norm, Pre_norm] else [Post_norm, Post_norm]))"
  using dec_layer_orders enc_layer_orders by blast

theorem Transformer_layers_norm_order_witness:
  "\<exists>dl el_pre el_post y y1 y2.
      TransformerDecoderLayer_init 2 1 4 0.1 = Inr dl
    \<and> TransformerEncoderLayer_init 2 1 4 0.1 True = Inr el_pre
    \<and> TransformerEncoderLayer_init 2 1 4 0.1 False = Inr el_post
    \<and> TransformerDecoderLayer_forward dl (input_tensor ''tgt'' [3, 1, 2])
         (input_tensor ''memory'' [5, 1, 2]) None None None
         (Some (input_tensor ''mask'' [1, 5])) (Some (input_tensor ''pos'' [5, 1, 2]))
         (Some (input_tensor ''query_pos'' [3, 1, 2])) = Inr y
    \<and> block_orders 3 (val y) = [Post_norm, Post_norm, Post_norm]
    \<and> TransformerEncoderLayer_forward el_pre (input_tensor ''src'' [5, 1, 2]) None
         (Some (input_tensor ''mask'' [1, 5])) (Some (input_tensor ''pos'' [5, 1, 2])) = Inr y1
    \<and> block_orders 2 (val y1) = [Pre_norm, Pre_norm]
    \<and> TransformerEncoderLayer_forward el_post (input_tensor ''src'' [5, 1, 2]) None
         (Some (input_tensor ''mask'' [1, 5])) (Some (input_tensor ''pos'' [5, 1, 2])) = Inr y2
    \<and> block_orders 2 (val y2) = [Post_norm, Post_norm]"
proof -
  obtain dl where dl: "TransformerDecoderLayer_init 2 1 4 0.1 = Inr dl"
    by (simp add: TransformerDecoderLayer_init_def MultiheadAttention_init_def Dropout_init_def)
  obtain el1 where el1: "TransformerEncoderLayer_init 2 1 4 0.1 True = Inr el1"
    by (simp add: TransformerEncoderLayer_init_def MultiheadAttention_init_def Dropout_init_def)
  obtain el2 where el2: "TransformerEncoderLayer_init 2 1 4 0.1 False = Inr el2"
    by (simp add: TransformerEncoderLayer_init_def MultiheadAttention_init_def Dropout_init_def)
  have nb: "enc_normalize_before el1" "\<not> enc_normalize_before el2"
    using TransformerEncoderLayer_init_Inr[OF el1] TransformerEncoderLayer_init_Inr[OF el2] by auto
  have "\<exists>y. TransformerDecoderLayer_forward dl (input_tensor ''tgt'' [3, 1, 2])
         (input_tensor ''memory'' [5, 1, 2]) None None None
         (Some (input_tensor ''mask'' [1, 5])) (Some (input_tensor ''pos'' [5, 1, 2]))
         (Some (input_tensor ''query_pos'' [3, 1, 2])) = Inr y \<and> shape y = [3, 1, 2]"
    by (rule dec_layer_shape[OF dl]) (simp_all add: input_tensor_def)
  then obtain y where y: "TransformerDecoderLayer_forward dl (input_tensor ''tgt'' [3, 1, 2])
         (input_tensor ''memory'' [5, 1, 2]) None None None
         (Some (input_tensor ''mask'' [1, 5])) (Some (input_tensor ''pos'' [5, 1, 2]))
         (Some (input_tensor ''query_pos'' [3, 1, 2])) = Inr y" by blast
  have "\<exists>y. TransformerEncoderLayer_forward el1 (input_tensor ''src'' [5, 1, 2]) None
         (Some (input_tensor ''mask'' [1, 5])) (Some (input_tensor ''pos'' [5, 1, 2])) = Inr y
         \<and> shape y = [5, 1, 2]"
    by (rule enc_layer_shape[OF el1]) (simp_all add: input_tensor_def)
  then obtain y1 where y1: "TransformerEncoderLayer_forward el1 (input_tensor ''src'' [5, 1, 2]) None
         (Some (input_tensor ''mask'' [1, 5])) (Some (input_tensor ''pos'' [5, 1, 2])) = Inr y1"
    by blast
  have "\<exists>y. TransformerEncoderLayer_forward el2 (input_tensor ''src'' [5, 1, 2]) None
         (Some (input_tensor ''mask'' [1, 5])) (Some (input_tensor ''pos'' [5, 1, 2])) = Inr y
         \<and> shape y = [5, 1, 2]"
    by (rule enc_layer_shape[OF el2]) (simp_all add: input_tensor_def)
  then obtain y2 where y2: "TransformerEncoderLayer_forward el2 (input_tensor ''src'' [5, 1, 2]) None
         (Some (input_tensor ''mask'' [1, 5])) (Some (input_tensor ''pos'' [5, 1, 2])) = Inr y2"
    by blast
  from Transformer_layers_norm_order[of dl "input_tensor ''tgt'' [3, 1, 2]"
         "input_tensor ''memory'' [5, 1, 2]" None None None
         "Some (input_tensor ''mask'' [1, 5])" "Some (input_tensor ''pos'' [5, 1, 2])"
         "Some (input_tensor ''query_pos'' [3, 1, 2])" y
         el1 "input_tensor ''src'' [5, 1, 2]" None "Some (input_tensor ''mask'' [1, 5])"
         "Some (input_tensor ''pos'' [5, 1, 2])" y1]
       Transformer_layers_norm_order[of dl "input_tensor ''tgt'' [3, 1, 2]"
         "input_tensor ''memory'' [5, 1, 2]" None None None
         "Some (input_tensor ''mask'' [1, 5])" "Some (input_tensor ''pos'' [5, 1, 2])"
         "Some (input_tensor ''query_pos'' [3, 1, 2])" y
         el2 "input_tensor ''src'' [5, 1, 2]" None "Some (input_tensor ''mask'' [1, 5])"
         "Some (input_tensor ''pos'' [5, 1, 2])" y2]
       dl el1 el2 y y1 y2 nb
  show ?thesis by auto
qed

text \<open>
  Claim C3 as stated fails: no configuration of the decoder layer and no input give a
  block that normalizes before its sub-block.
\<close>

theorem TransformerDecoderLayer_never_pre_norm:
  "\<not> (\<exists>d nh ff pr layer tgt memory tm mm tk mk pos qp y.
        TransformerDecoderLayer_init d nh ff pr = Inr layer
        \<and> TransformerDecoderLayer_forward layer tgt memory tm mm tk mk pos qp = Inr y
        \<and> Pre_norm \<in> set (block_orders 3 (val y)))"
proof
  assume "\<exists>d nh ff pr layer tgt memory tm mm tk mk pos qp y.
        TransformerDecoderLayer_init d nh ff pr = Inr layer
        \<and> TransformerDecoderLayer_forward layer tgt memory tm mm tk mk pos qp = Inr y
        \<and> Pre_norm \<in> set (block_orders 3 (val y))"
  then obtain layer tgt memory tm mm tk mk pos qp y where
    "TransformerDecoderLayer_forward layer tgt memory tm mm tk mk pos qp = Inr y"
    "Pre_norm \<in> set (block_orders 3 (val y))" by blast
  then show False using dec_layer_orders by fastforce
qed

text \<open>
  \<open>Transformer.__init__\<close> hands \<open>normalize_before\<close> to the encoder layer only, so the
  decoder it builds is the same for both values.
\<close>

lemma Transformer_init_decoder_ignores_normalize_before:
  assumes "Transformer_init a = Inr tr" "Transformer_init (a\<lparr>a_normalize_before := b\<rparr>) = Inr tr'"
  shows "decoder tr' = decoder tr"
  using Transformer_init_Inr[OF assms(1)] Transformer_init_Inr[OF assms(2)] by auto

text \<open>The value a decoder layer computes, written out for inputs without masks.\<close>

lemma dec_layer_value_example:
  "map_sum id val (bnd (TransformerDecoderLayer_init 2 1 4 0.1) (\<lambda>layer.
     TransformerDecoderLayer_forward layer (input_tensor ''tgt'' [3, 1, 2])
       (input_tensor ''memory'' [5, 1, 2]) None None None None None None))
   = Inr (App (Call Norm4) [App Add
       [App (Call Norm3) [App Add
         [App (Call Norm1) [App Add [Input ''tgt'',
            App (Call Dropout1) [App (Call Self_attn) [Input ''tgt'', Input ''tgt'', Input ''tgt'']]]],
          App (Call Dropout3) [App (Call Cross_attn_image)
            [App (Call Norm1) [App Add [Input ''tgt'',
               App (Call Dropout1) [App (Call Self_attn) [Input ''tgt'', Input ''tgt'', Input ''tgt'']]]],
             Input ''memory'', Input ''memory'']]]],
        App (Call Dropout4) [App (Call Linear2) [App (Call Dropout0) [App (Call Activation)
          [App (Call Linear1)
            [App (Call Norm3) [App Add
              [App (Call Norm1) [App Add [Input ''tgt'',
                 App (Call Dropout1) [App (Call Self_attn) [Input ''tgt'', Input ''tgt'', Input ''tgt'']]]],
               App (Call Dropout3) [App (Call Cross_attn_image)
                 [App (Call Norm1) [App Add [Input ''tgt'',
                    App (Call Dropout1) [App (Call Self_attn) [Input ''tgt'', Input ''tgt'', Input ''tgt'']]]],
                  Input ''memory'', Input ''memory'']]]]]]]]]]])"
  by code_simp

text \<open>
  Claim C8. A decoder built with intermediate capture and a final normalization, when
  it returns, returns the stack of exactly \<open>num_layers\<close> entries, one per layer: entry
  \<open>i\<close> is the normalization of the raw output of layer \<open>i\<close>, the last one included,
  which is the final normalized output and occurs once. (Without layers the call
  raises: \<open>pop\<close> finds the list empty.)
\<close>

theorem TransformerDecoder_forward_intermediate_stack:
  assumes "self = TransformerDecoder_init decoder_layer num_layers (Some n) True"
    and "TransformerDecoder_forward self tgt memory tm mm tk mk pos qp = Inr hs"
  shows "\<exists>outs normed. layer_outputs (dec_layers self) tgt memory tm mm tk mk pos qp = Inr outs
      \<and> 0 < num_layers \<and> length outs = num_layers \<and> length normed = num_layers
      \<and> (\<forall>i<num_layers. LayerNorm_forward Norm0 n (outs ! i) = Inr (normed ! i))
      \<and> stack normed = Inr hs
      \<and> shape hs = num_layers # shape (last normed)
      \<and> val hs = App Stack (map val normed)"
proof -
  have c: "return_intermediate self" "dec_norm self = Some n"
    "length (dec_layers self) = num_layers"
    using assms(1) by (simp_all add: TransformerDecoder_init_def get_clones_def)
  from TransformerDecoder_forward_stack[OF c(1,2) assms(2)] obtain outs normed where
    o: "layer_outputs (dec_layers self) tgt memory tm mm tk mk pos qp = Inr outs"
       "length outs = num_layers" "length normed = num_layers"
       "map (LayerNorm_forward Norm0 n) outs = map Inr normed"
       "stack normed = Inr hs" "shape hs = num_layers # shape (last normed)"
       "val hs = App Stack (map val normed)" unfolding c(3) by blast
  have "\<forall>i<num_layers. LayerNorm_forward Norm0 n (outs ! i) = Inr (normed ! i)"
  proof (intro allI impI)
    fix i assume i: "i < num_layers"
    have "map (LayerNorm_forward Norm0 n) outs ! i = map Inr normed ! i" using o(4) by simp
    then show "LayerNorm_forward Norm0 n (outs ! i) = Inr (normed ! i)"
      using i o(2,3) by simp
  qed
  moreover have "0 < num_layers" using o(3,5) by (cases normed) (auto simp: stack_def)
  ultimately show ?thesis using o by blast
qed

theorem TransformerDecoder_forward_intermediate_stack_witness:
  "\<exists>dl hs outs normed. TransformerDecoderLayer_init 2 1 4 0.1 = Inr dl
      \<and> TransformerDecoder_forward (TransformerDecoder_init dl 2 (Some (LayerNorm_init 2)) True)
           (input_tensor ''tgt'' [3, 1, 2]) (input_tensor ''memory'' [5, 1, 2]) None None None
           (Some (input_tensor ''mask'' [1, 5])) (Some (input_tensor ''pos'' [5, 1, 2]))
           (Some (input_tensor ''query_pos'' [3, 1, 2])) = Inr hs
      \<and> layer_outputs (dec_layers (TransformerDecoder_init dl 2 (Some (LayerNorm_init 2)) True))
           (input_tensor ''tgt'' [3, 1, 2]) (input_tensor ''memory'' [5, 1, 2]) None None None
           (Some (input_tensor ''mask'' [1, 5])) (Some (input_tensor ''pos'' [5, 1, 2]))
           (Some (input_tensor ''query_pos'' [3, 1, 2])) = Inr outs
      \<and> length outs = 2 \<and> length normed = 2
      \<and> (\<forall>i<2. LayerNorm_forward Norm0 (LayerNorm_init 2) (outs ! i) = Inr (normed ! i))
      \<and> stack normed = Inr hs
      \<and> shape hs = [2, 3, 1, 2]"
proof -
  obtain dl where dl: "TransformerDecoderLayer_init 2 1 4 0.1 = Inr dl"
    by (simp add: TransformerDecoderLayer_init_def MultiheadAttention_init_def Dropout_init_def)
  let ?self = "TransformerDecoder_init dl 2 (Some (LayerNorm_init 2)) True"
  have self: "?self = \<lparr>dec_layers = replicate 2 dl, dec_num_layers = 2,
                       dec_norm = Some (LayerNorm_init 2), return_intermediate = True\<rparr>"
    by (simp add: TransformerDecoder_init_def get_clones_def)
  have "\<exists>hs. TransformerDecoder_forward ?self
           (input_tensor ''tgt'' [3, 1, 2]) (input_tensor ''memory'' [5, 1, 2]) None None None
           (Some (input_tensor ''mask'' [1, 5])) (Some (input_tensor ''pos'' [5, 1, 2]))
           (Some (input_tensor ''query_pos'' [3, 1, 2])) = Inr hs
         \<and> shape hs = (if True then [2, 3, 1, 2] else [3, 1, 2])"
    by (rule TransformerDecoder_forward_shape[OF dl self]) (simp_all add: input_tensor_def)
  then obtain hs where
    hs: "TransformerDecoder_forward ?self
           (input_tensor ''tgt'' [3, 1, 2]) (input_tensor ''memory'' [5, 1, 2]) None None None
           (Some (input_tensor ''mask'' [1, 5])) (Some (input_tensor ''pos'' [5, 1, 2]))
           (Some (input_tensor ''query_pos'' [3, 1, 2])) = Inr hs"
        "shape hs = [2, 3, 1, 2]" by auto
  from TransformerDecoder_forward_intermediate_stack[OF refl hs(1)] dl hs show ?thesis
    by auto
qed

subsection \<open>The fused memory and the assertions\<close>

lemma assert_shape1_Some:
  assumes "1 < length (shape x)" "1 < length (shape y)" "1 < length (shape z)"
  shows "assert_shape1 x y (Some z)
         = (if shape x ! 1 = shape y ! 1 \<and> shape y ! 1 = shape z ! 1 then Inr ()
            else Inl AssertionError)"
  using assms by (simp add: assert_shape1_def shape_at_def get_attr_def)

lemma Transformer_forward_stages:
  assumes init: "Transformer_init a = Inr tr" and pq: "a_pass_pos_and_query a"
    and v: "valid_inputs (a_d_model a) B H W Q T src msk query_embed pos_embed text_memory tam"
  shows "\<exists>f e. Transformer_fuse tr (Some src) (Some msk) (Some query_embed) (Some pos_embed)
                (Some text_memory) (Some tam) = Inr f
      \<and> shape (f_src f) = [H * W + T, B, a_d_model a]
      \<and> Transformer_encode tr f = Inr e
      \<and> TransformerEncoder_forward (encoder tr) (f_src f) None (Some (f_mask f))
            (Some (f_pos_embed f)) = Inr (e_img_memory e)
      \<and> shape (e_img_memory e) = [H * W + T, B, a_d_model a]
      \<and> slice_from_end T (e_img_memory e) = Inr (e_text_memory e)
      \<and> shape (e_text_memory e) = [T, B, a_d_model a]
      \<and> shape (e_tgt e) = [Q, B, a_d_model a]
      \<and> Transformer_forward tr (Some src) (Some msk) (Some query_embed) (Some pos_embed)
                (Some text_memory) img_memory (Some tam)
          = bnd (TransformerDecoder_forward (decoder tr) (e_tgt e) (e_img_memory e) None None None
                   (Some (e_mask e)) (e_pos_embed e) (e_query_embed e)) (transpose_dims 1 2)"
proof -
  have pq': "pass_pos_and_query tr" using Transformer_init_Inr[OF init] pq by auto
  from Transformer_fuse_default[OF pq' v] obtain f qe where
    f: "Transformer_fuse tr (Some src) (Some msk) (Some query_embed) (Some pos_embed)
                (Some text_memory) (Some tam) = Inr f"
      "shape (f_src f) = [H * W + T, B, a_d_model a]"
      "shape (f_mask f) = [B, H * W + T]"
      "shape (f_pos_embed f) = [H * W + T, B, a_d_model a]"
      "f_query_embed f = Some qe" "shape qe = [Q, B, a_d_model a]"
      "shape (f_tgt f) = [Q, B, a_d_model a]"
      "f_text_memory f = Some text_memory" by blast
  have T: "0 < T" "shape text_memory = T # [B, a_d_model a]" using v by (simp_all add: valid_inputs_def)
  from Transformer_encode_default[OF init pq' T(1) f(2-8) T(2)] obtain e where
    e: "Transformer_encode tr f = Inr e"
      "TransformerEncoder_forward (encoder tr) (f_src f) None (Some (f_mask f))
            (Some (f_pos_embed f)) = Inr (e_img_memory e)"
      "shape (e_img_memory e) = [H * W + T, B, a_d_model a]"
      "slice_from_end T (e_img_memory e) = Inr (e_text_memory e)"
      "shape (e_text_memory e) = [T, B, a_d_model a]"
      "shape (e_tgt e) = [Q, B, a_d_model a]" by blast
  have "Transformer_forward tr (Some src) (Some msk) (Some query_embed) (Some pos_embed)
                (Some text_memory) img_memory (Some tam)
          = bnd (TransformerDecoder_forward (decoder tr) (e_tgt e) (e_img_memory e) None None None
                   (Some (e_mask e)) (e_pos_embed e) (e_query_embed e)) (transpose_dims 1 2)"
    using f(1) e(1) by (simp add: Transformer_forward_def Transformer_decode_def)
  then show ?thesis using f(1,2) e by blast
qed

lemma MultiheadAttention_forward_shape_Inr:
  assumes "MultiheadAttention_forward a m q k v am kpm = Inr y"
  shows "shape y = shape q \<and> length (shape q) = 3 \<and> shape v = shape k
         \<and> last (shape q) = embed_dim m"
  using assms
  by (auto simp: MultiheadAttention_forward_def split: list.splits if_splits)

lemma LayerNorm_forward_shape_Inr:
  "LayerNorm_forward a m x = Inr y \<Longrightarrow> shape y = shape x \<and> shape x \<noteq> [] \<and> last (shape x) = normalized_shape m"
  by (auto simp: LayerNorm_forward_def split: if_splits)

lemma Linear_forward_shape_Inr:
  "Linear_forward a m x = Inr y \<Longrightarrow> shape y = butlast (shape x) @ [out_features m] \<and> shape x \<noteq> []"
  by (auto simp: Linear_forward_def split: if_splits)

lemma add_Inr_same:
  "add (Some x) (Some y) = Inr z \<Longrightarrow> shape y = shape x \<Longrightarrow> shape z = shape x"
  by (auto simp: add_same_shape)

lemma feed_forward_shape_Inr:
  assumes l1: "Linear_forward Linear1 (Linear_init d ff) x = Inr h"
    and l2: "Linear_forward Linear2 (Linear_init ff d) (Dropout_forward Dropout0 dr (activation h)) = Inr y"
    and x: "last (shape x) = d"
  shows "shape (Dropout_forward a dr2 y) = shape x"
proof -
  from Linear_forward_shape_Inr[OF l1] have h: "shape h = butlast (shape x) @ [ff]" "shape x \<noteq> []"
    by (simp_all add: Linear_init_def)
  from Linear_forward_shape_Inr[OF l2] have "shape y = butlast (shape h) @ [d]"
    by (simp add: Linear_init_def Dropout_forward_def activation_def)
  with h x have "shape y = butlast (shape x) @ [last (shape x)]" by simp
  with h(2) show ?thesis by (simp add: Dropout_forward_def)
qed

lemma enc_layer_Inr_shape:
  assumes init: "TransformerEncoderLayer_init d nh ff pr nb = Inr layer"
    and fw: "TransformerEncoderLayer_forward layer src sm kpm pos = Inr y"
  shows "shape y = shape src"
proof -
  note I = TransformerEncoderLayer_init_Inr[OF init]
  show ?thesis
  proof (cases nb)
    case False
    with fw I have "enc_forward_post layer src sm kpm pos = Inr y"
      by (simp add: TransformerEncoderLayer_forward_def)
    then obtain q s2 s3 s4 h s5 s6 where
      q: "with_pos_embed src pos = Inr q"
      and a: "MultiheadAttention_forward Self_attn (enc_self_attn layer) q q src sm kpm = Inr s2"
      and s3: "add (Some src) (Some (Dropout_forward Dropout1 (enc_dropout1 layer) s2)) = Inr s3"
      and s4: "LayerNorm_forward Norm1 (enc_norm1 layer) s3 = Inr s4"
      and h: "Linear_forward Linear1 (enc_linear1 layer) s4 = Inr h"
      and s5: "Linear_forward Linear2 (enc_linear2 layer)
            (Dropout_forward Dropout0 (enc_dropout layer) (activation h)) = Inr s5"
      and s6: "add (Some s4) (Some (Dropout_forward Dropout2 (enc_dropout2 layer) s5)) = Inr s6"
      and y: "LayerNorm_forward Norm2 (enc_norm2 layer) s6 = Inr y"
      unfolding enc_forward_post_def bnd_eq_Inr by blast
    from MultiheadAttention_forward_shape_Inr[OF a] have m: "shape s2 = shape src" by simp
    from add_Inr_same[OF s3] m have e3: "shape s3 = shape src" by (simp add: Dropout_forward_def)
    from LayerNorm_forward_shape_Inr[OF s4] I
    have e4: "shape s4 = shape s3" "last (shape s3) = d" by (simp_all add: LayerNorm_init_def)
    from h s5 I have "shape (Dropout_forward Dropout2 (enc_dropout2 layer) s5) = shape s4"
      using feed_forward_shape_Inr[of d ff s4 h "enc_dropout layer" s5] e4 by simp
    with add_Inr_same[OF s6] have "shape s6 = shape s4" by simp
    with LayerNorm_forward_shape_Inr[OF y] e4 e3 show ?thesis by simp
  next
    case True
    with fw I have "enc_forward_pre layer src sm kpm pos = Inr y"
      by (simp add: TransformerEncoderLayer_forward_def)
    then obtain s1 q s2 s3 s4 h s5 where
      s1: "LayerNorm_forward Norm1 (enc_norm1 layer) src = Inr s1"
      and q: "with_pos_embed s1 pos = Inr q"
      and a: "MultiheadAttention_forward Self_attn (enc_self_attn layer) q q s1 sm kpm = Inr s2"
      and s3: "add (Some src) (Some (Dropout_forward Dropout1 (enc_dropout1 layer) s2)) = Inr s3"
      and s4: "LayerNorm_forward Norm2 (enc_norm2 layer) s3 = Inr s4"
      and h: "Linear_forward Linear1 (enc_linear1 layer) s4 = Inr h"
      and s5: "Linear_forward Linear2 (enc_linear2 layer)
            (Dropout_forward Dropout0 (enc_dropout layer) (activation h)) = Inr s5"
      and y: "add (Some s3) (Some (Dropout_forward Dropout2 (enc_dropout2 layer) s5)) = Inr y"
      unfolding enc_forward_pre_def bnd_eq_Inr by blast
    from LayerNorm_forward_shape_Inr[OF s1] have e1: "shape s1 = shape src" by simp
    from MultiheadAttention_forward_shape_Inr[OF a] e1 have m: "shape s2 = shape src" by simp
    from add_Inr_same[OF s3] m have e3: "shape s3 = shape src" by (simp add: Dropout_forward_def)
    from LayerNorm_forward_shape_Inr[OF s4] I
    have e4: "shape s4 = shape s3" "last (shape s3) = d" by (simp_all add: LayerNorm_init_def)
    from h s5 I have "shape (Dropout_forward Dropout2 (enc_dropout2 layer) s5) = shape s4"
      using feed_forward_shape_Inr[of d ff s4 h "enc_dropout layer" s5] e4 by simp
    with add_Inr_same[OF y] e4 have "shape y = shape s3" by simp
    with e3 show ?thesis by simp
  qed
qed

lemma encoder_loop_Inr_shape:
  assumes init: "TransformerEncoderLayer_init d nh ff pr nb = Inr layer"
  shows "encoder_loop (replicate n layer) src sm kpm pos = Inr y \<Longrightarrow> shape y = shape src"
proof (induction n arbitrary: src)
  case 0
  then show ?case by simp
next
  case (Suc n)
  then obtain z where z: "TransformerEncoderLayer_forward layer src sm kpm pos = Inr z"
    "encoder_loop (replicate n layer) z sm kpm pos = Inr y"
    by (auto simp: bnd_eq_Inr)
  from Suc.IH[OF z(2)] enc_layer_Inr_shape[OF init z(1)] show ?case by simp
qed

lemma TransformerEncoder_forward_Inr_shape:
  assumes init: "Transformer_init a = Inr tr"
    and fw: "TransformerEncoder_forward (encoder tr) src sm kpm pos = Inr y"
  shows "shape y = shape src"
proof -
  from Transformer_init_Inr[OF init] obtain el where
    el: "TransformerEncoderLayer_init (a_d_model a) (a_nhead a) (a_dim_feedforward a)
                    (a_dropout a) (a_normalize_before a) = Inr el"
    and enc: "encoder tr = \<lparr>enc_layers = replicate (a_num_encoder_layers a) el,
                       enc_num_layers = a_num_encoder_layers a,
                       enc_norm = (if a_normalize_before a then Some (LayerNorm_init (a_d_model a)) else None)\<rparr>"
    by blast
  from fw obtain z where z: "encoder_loop (replicate (a_num_encoder_layers a) el) src sm kpm pos = Inr z"
    and n: "(case enc_norm (encoder tr) of None \<Rightarrow> Inr z | Some n \<Rightarrow> LayerNorm_forward Norm0 n z) = Inr y"
    by (auto simp: TransformerEncoder_forward_def bnd_eq_Inr enc)
  from n have "shape y = shape z"
    by (auto simp: enc dest: LayerNorm_forward_shape_Inr split: if_splits)
  with encoder_loop_Inr_shape[OF el z] show ?thesis by simp
qed


lemma zeros_like_Some: "zeros_like (Some t) = Inr \<lparr>shape = shape t, val = App Zeros_like [val t]\<rparr>"
  by (simp add: zeros_like_def)

lemma repeat_Inr_length: "repeat sizes x = Inr y \<Longrightarrow> length (shape y) = length sizes"
  by (auto simp: repeat_def split: if_splits)

lemma flatten_permute_Inr_length:
  "bnd (flatten 2 x) (permute [2, 0, 1]) = Inr y \<Longrightarrow> length (shape y) = 3"
  by (auto simp: bnd_eq_Inr permute_def split: if_splits)

lemma cat_pair_Inr:
  assumes "cat [Some x, tm] 0 = Inr y" "length (shape x) = 3"
  shows "\<exists>t. tm = Some t \<and> shape t \<noteq> [] \<and> length (shape y) = 3"
proof -
  from assms(1) obtain t where t: "tm = Some t"
    by (cases tm) (simp_all add: cat_def)
  have x: "shape x \<noteq> [0]" using assms(2) by auto
  have "shape t \<noteq> []" "length (shape y) = 3"
    using assms t x by (auto simp: cat_def Let_def split: if_splits)
  with t show ?thesis by blast
qed

lemma Transformer_fuse_never_alt_mode:
  assumes "\<not> pass_pos_and_query tr"
  shows "Transformer_fuse tr src msk query_embed pos_embed text_memory tam \<noteq> Inr f"
  using assms
  by (auto simp: Transformer_fuse_def bnd_eq_Inr cat_def split: if_splits)

lemma Transformer_fuse_Inr_default:
  assumes pq: "pass_pos_and_query tr"
    and fu: "Transformer_fuse tr src msk query_embed pos_embed text_memory tam = Inr f"
  shows "\<exists>qe t. f_query_embed f = Some qe \<and> shape qe = shape (f_tgt f)
           \<and> length (shape (f_tgt f)) = 3 \<and> f_text_memory f = Some t \<and> shape t \<noteq> []
           \<and> length (shape (f_src f)) = 3"
proof -
  from fu obtain s s' bs q0 q' c1 where
    s: "bnd (flatten 2 s) (permute [2, 0, 1]) = Inr s'"
    and q: "bnd (unsqueeze 1 q0) (repeat [1, bs, 1]) = Inr q'"
    and c: "cat [Some s', text_memory] 0 = Inr c1"
    and f: "f_src f = c1" "f_query_embed f = Some q'" "shape (f_tgt f) = shape q'"
           "f_text_memory f = text_memory"
    by (auto simp: Transformer_fuse_def bnd_eq_Inr[of _ _ f] bnd_eq_Inr[of "get_attr _"]
          bnd_eq_Inr[of "unpack4 _"] bnd_eq_Inr[of "bnd _ _"] bnd_eq_Inr[of "flatten 1 _"]
          bnd_eq_Inr[of "cat _ _"] bnd_eq_Inr[of "zeros_like text_memory"] pq zeros_like_Some)
  from q have "length (shape q') = 3" by (auto simp: bnd_eq_Inr dest: repeat_Inr_length)
  moreover from cat_pair_Inr[OF c flatten_permute_Inr_length[OF s]] obtain t where
    "text_memory = Some t" "shape t \<noteq> []" "length (shape c1) = 3" by blast
  ultimately show ?thesis using f by simp
qed

lemma Transformer_encode_assert:
  assumes init: "Transformer_init a = Inr tr"
    and fu: "Transformer_fuse tr src msk query_embed pos_embed text_memory tam = Inr f"
    and en: "TransformerEncoder_forward (encoder tr) (f_src f) None (Some (f_mask f))
               (Some (f_pos_embed f)) = Inr img"
  shows "(shape img ! 1 = shape (f_tgt f) ! 1 \<longrightarrow>
            (\<exists>e. Transformer_encode tr f = Inr e \<and> e_img_memory e = img
               \<and> shape (e_text_memory e) ! 1 = shape img ! 1
               \<and> shape (e_tgt e) ! 1 = shape img ! 1))
       \<and> (shape img ! 1 \<noteq> shape (f_tgt f) ! 1 \<longrightarrow> Transformer_encode tr f = Inl AssertionError)"
proof -
  have pq: "pass_pos_and_query tr" using Transformer_fuse_never_alt_mode fu by blast
  from Transformer_fuse_Inr_default[OF pq fu] obtain qe t where
    f: "f_query_embed f = Some qe" "shape qe = shape (f_tgt f)"
       "length (shape (f_tgt f)) = 3" "f_text_memory f = Some t" "shape t \<noteq> []"
       "length (shape (f_src f)) = 3" by blast
  from TransformerEncoder_forward_Inr_shape[OF init en] f(6) have "length (shape img) = 3" by simp
  then obtain l b d where img: "shape img = [l, b, d]"
    by (cases "shape img"; simp; cases "tl (shape img)"; simp; cases "tl (tl (shape img))"; auto)
  from f(3) obtain q b' d' where tgt: "shape (f_tgt f) = [q, b', d']"
    by (cases "shape (f_tgt f)"; simp; cases "tl (shape (f_tgt f))"; simp; cases "tl (tl (shape (f_tgt f)))"; auto)
  from f(5) obtain n rest where t: "shape t = n # rest" by (cases "shape t") auto
  show ?thesis using en f(1,2,4) img tgt t pq
    by (simp add: Transformer_encode_def len_def slice_from_end_def assert_shape1_def
          shape_at_def get_attr_def zeros_like_def)
qed

lemma Transformer_fuse_flat_query:
  assumes "pass_pos_and_query tr"
    and "valid_inputs d B H W Q T src msk query_embed pos_embed text_memory tam"
    and "shape q1 = [Q]"
  shows "\<exists>f. Transformer_fuse tr (Some src) (Some msk) (Some q1) (Some pos_embed)
                (Some text_memory) (Some tam) = Inr f
      \<and> shape (f_src f) = [H * W + T, B, d]
      \<and> shape (f_mask f) = [B, H * W + T]
      \<and> shape (f_pos_embed f) = [H * W + T, B, d]
      \<and> shape (f_tgt f) = [1, B * Q, 1]"
  using assms
  by (simp add: valid_inputs_def Transformer_fuse_def get_attr_def unpack4_def flatten_def
        permute_def unsqueeze_def repeat_def zeros_like_def cat_def Let_def)

text \<open>
  Claim C7 describes the fused memory for all valid inputs. With \<open>pass_pos_and_query\<close>
  true and a text memory of at least one token it holds (\<open>Transformer_forward_stages\<close>):
  the concatenated source has \<open>H * W + T\<close> positions, the encoder's output has as many,
  the refined text memory is the slice of its last \<open>T\<close> positions, and the decoder is
  called with the whole encoder output as its memory. With the flag false no fused memory
  reaches the encoder: line 173 sets \<open>pos_embed\<close> to \<open>None\<close> and the concatenation of
  line 185 raises. Here is the run of lines 164 to 185 for the model of the repository's
  factory with the flag turned off.
\<close>

theorem Transformer_fuse_alternate_mode_raises:
  "\<exists>tr. Transformer_init (default_args\<lparr>a_d_model := 256, a_return_intermediate_dec := True,
                a_pass_pos_and_query := False\<rparr>) = Inr tr
     \<and> Transformer_fuse tr (Some ex_src) (Some ex_mask) (Some ex_query_embed)
          (Some ex_pos_embed) (Some ex_text_memory) (Some ex_text_attention_mask)
        = Inl TypeError"
proof -
  let ?a = "default_args\<lparr>a_d_model := 256, a_return_intermediate_dec := True,
                a_pass_pos_and_query := False\<rparr>"
  obtain tr where tr: "Transformer_init ?a = Inr tr"
    using Transformer_init_ok[of ?a] by (auto simp: default_args_def)
  have "\<not> pass_pos_and_query tr" using Transformer_init_Inr[OF tr] by auto
  from Transformer_fuse_alt_mode[OF this ex_valid]
  have fu: "Transformer_fuse tr (Some ex_src) (Some ex_mask) (Some ex_query_embed)
          (Some ex_pos_embed) (Some ex_text_memory) (Some ex_text_attention_mask)
        = Inl TypeError" .
  with tr fu show ?thesis by blast
qed

text \<open>Python's \<open>x[-0:]\<close> is \<open>x[0:]\<close>: for an empty text memory the slice is the whole.\<close>

lemma slice_from_end_zero:
  "shape x = l # rest \<Longrightarrow> \<exists>y. slice_from_end 0 x = Inr y \<and> shape y = shape x"
  by (simp add: slice_from_end_def)

text \<open>
  Claim C4, as amended. The assertions compare axis 1 of the encoder output, of the
  refined text memory and of the target, which is the batch axis; sequence lengths are
  axis 0 and are not compared. Whenever the inputs have been fused and the encoder has
  returned, the text memory sliced from the encoder output has the encoder output's
  axis 1, and \<open>forward\<close> raises \<open>AssertionError\<close> exactly when axis 1 of the encoder
  output and of the target differ; otherwise it goes on to the decoder, and its result is
  the decoder's. For well-formed inputs with \<open>pass_pos_and_query\<close> true the three batch
  sizes agree, so the assertions hold and the decoder is run, whatever the fused length
  \<open>H * W + T\<close> and the target length \<open>Q\<close>.
\<close>

theorem Transformer_forward_asserts_batch:
  assumes init: "Transformer_init a = Inr tr"
  shows "(\<forall>f img. Transformer_fuse tr src msk query_embed pos_embed text_memory tam = Inr f
             \<and> TransformerEncoder_forward (encoder tr) (f_src f) None (Some (f_mask f))
                 (Some (f_pos_embed f)) = Inr img
           \<longrightarrow> (if shape img ! 1 = shape (f_tgt f) ! 1
                then \<exists>e. Transformer_encode tr f = Inr e \<and> e_img_memory e = img
                       \<and> shape (e_text_memory e) ! 1 = shape img ! 1
                       \<and> shape (e_tgt e) ! 1 = shape img ! 1
                       \<and> Transformer_forward tr src msk query_embed pos_embed text_memory
                           img_memory tam = Transformer_decode tr e
                else Transformer_encode tr f = Inl AssertionError
                       \<and> Transformer_forward tr src msk query_embed pos_embed text_memory
                           img_memory tam = Inl AssertionError))
       \<and> (a_pass_pos_and_query a \<and> valid_inputs (a_d_model a) B H W Q T s m q p t k
           \<longrightarrow> (\<exists>f e. Transformer_fuse tr (Some s) (Some m) (Some q) (Some p) (Some t) (Some k) = Inr f
                  \<and> Transformer_encode tr f = Inr e
                  \<and> shape (e_img_memory e) = [H * W + T, B, a_d_model a]
                  \<and> shape (e_text_memory e) = [T, B, a_d_model a]
                  \<and> shape (e_tgt e) = [Q, B, a_d_model a]
                  \<and> Transformer_forward tr (Some s) (Some m) (Some q) (Some p) (Some t)
                      img_memory (Some k) = Transformer_decode tr e))"
proof -
  have fires: "if shape img ! 1 = shape (f_tgt f) ! 1
                then \<exists>e. Transformer_encode tr f = Inr e \<and> e_img_memory e = img
                       \<and> shape (e_text_memory e) ! 1 = shape img ! 1
                       \<and> shape (e_tgt e) ! 1 = shape img ! 1
                       \<and> Transformer_forward tr src msk query_embed pos_embed text_memory
                           img_memory tam = Transformer_decode tr e
                else Transformer_encode tr f = Inl AssertionError
                       \<and> Transformer_forward tr src msk query_embed pos_embed text_memory
                           img_memory tam = Inl AssertionError"
    if fu: "Transformer_fuse tr src msk query_embed pos_embed text_memory tam = Inr f"
      and en: "TransformerEncoder_forward (encoder tr) (f_src f) None (Some (f_mask f))
                 (Some (f_pos_embed f)) = Inr img" for f img
  proof (cases "shape img ! 1 = shape (f_tgt f) ! 1")
    case True
    with Transformer_encode_assert[OF init fu en] obtain e where
      e: "Transformer_encode tr f = Inr e" "e_img_memory e = img"
         "shape (e_text_memory e) ! 1 = shape img ! 1" "shape (e_tgt e) ! 1 = shape img ! 1"
      by blast
    have "Transformer_forward tr src msk query_embed pos_embed text_memory img_memory tam
          = Transformer_decode tr e"
      using fu e(1) by (simp add: Transformer_forward_def)
    with e True show ?thesis by auto
  next
    case False
    with Transformer_encode_assert[OF init fu en]
    have e: "Transformer_encode tr f = Inl AssertionError" by blast
    then have "Transformer_forward tr src msk query_embed pos_embed text_memory img_memory tam
          = Inl AssertionError"
      using fu by (simp add: Transformer_forward_def)
    with e False show ?thesis by simp
  qed
  have passes: "\<exists>f e. Transformer_fuse tr (Some s) (Some m) (Some q) (Some p) (Some t) (Some k) = Inr f
                  \<and> Transformer_encode tr f = Inr e
                  \<and> shape (e_img_memory e) = [H * W + T, B, a_d_model a]
                  \<and> shape (e_text_memory e) = [T, B, a_d_model a]
                  \<and> shape (e_tgt e) = [Q, B, a_d_model a]
                  \<and> Transformer_forward tr (Some s) (Some m) (Some q) (Some p) (Some t)
                      img_memory (Some k) = Transformer_decode tr e"
    if pq: "a_pass_pos_and_query a"
      and v: "valid_inputs (a_d_model a) B H W Q T s m q p t k"
  proof -
    from Transformer_forward_stages[OF init pq v, of img_memory] obtain f e where
      "Transformer_fuse tr (Some s) (Some m) (Some q) (Some p) (Some t) (Some k) = Inr f"
      "Transformer_encode tr f = Inr e"
      "shape (e_img_memory e) = [H * W + T, B, a_d_model a]"
      "shape (e_text_memory e) = [T, B, a_d_model a]"
      "shape (e_tgt e) = [Q, B, a_d_model a]"
      "Transformer_forward tr (Some s) (Some m) (Some q) (Some p) (Some t) img_memory (Some k)
         = bnd (TransformerDecoder_forward (decoder tr) (e_tgt e) (e_img_memory e) None None None
                   (Some (e_mask e)) (e_pos_embed e) (e_query_embed e)) (transpose_dims 1 2)"
      by blast
    then show ?thesis unfolding Transformer_decode_def by blast
  qed
  show ?thesis using fires passes by blast
qed

theorem Transformer_forward_asserts_batch_witness:
  "\<exists>tr. Transformer_init (default_args\<lparr>a_d_model := 256\<rparr>) = Inr tr
      \<and> (\<exists>f e. Transformer_fuse tr (Some ex_src) (Some ex_mask) (Some ex_query_embed)
                  (Some ex_pos_embed) (Some ex_text_memory) (Some ex_text_attention_mask) = Inr f
            \<and> Transformer_encode tr f = Inr e
            \<and> shape (e_img_memory e) = [612, 2, 256]
            \<and> shape (e_text_memory e) = [12, 2, 256]
            \<and> shape (e_tgt e) = [100, 2, 256]
            \<and> Transformer_forward tr (Some ex_src) (Some ex_mask) (Some ex_query_embed)
                  (Some ex_pos_embed) (Some ex_text_memory) None (Some ex_text_attention_mask)
                = Transformer_decode tr e)
      \<and> (\<exists>f img. Transformer_fuse tr (Some ex_src) (Some ex_mask)
                  (Some (input_tensor ''query_embed'' [100]))
                  (Some ex_pos_embed) (Some ex_text_memory) (Some ex_text_attention_mask) = Inr f
            \<and> TransformerEncoder_forward (encoder tr) (f_src f) None (Some (f_mask f))
                 (Some (f_pos_embed f)) = Inr img
            \<and> shape img ! 1 = 2 \<and> shape (f_tgt f) ! 1 = 200
            \<and> Transformer_encode tr f = Inl AssertionError
            \<and> Transformer_forward tr (Some ex_src) (Some ex_mask)
                  (Some (input_tensor ''query_embed'' [100]))
                  (Some ex_pos_embed) (Some ex_text_memory) None (Some ex_text_attention_mask)
                = Inl AssertionError)"
proof -
  let ?a = "default_args\<lparr>a_d_model := 256\<rparr>"
  let ?q1 = "input_tensor ''query_embed'' [100]"
  obtain tr where tr: "Transformer_init ?a = Inr tr"
    using Transformer_init_ok[of ?a] by (auto simp: default_args_def)
  have pq: "a_pass_pos_and_query ?a" by (simp add: default_args_def)
  then have pq': "pass_pos_and_query tr" using Transformer_init_Inr[OF tr] by auto
  have v: "valid_inputs (a_d_model ?a) 2 20 30 100 12 ex_src ex_mask ex_query_embed ex_pos_embed
          ex_text_memory ex_text_attention_mask" using ex_valid by simp
  from Transformer_fuse_flat_query[OF pq' v, of ?q1] obtain f where
    f: "Transformer_fuse tr (Some ex_src) (Some ex_mask) (Some ?q1) (Some ex_pos_embed)
          (Some ex_text_memory) (Some ex_text_attention_mask) = Inr f"
       "shape (f_src f) = [20 * 30 + 12, 2, a_d_model ?a]"
       "shape (f_mask f) = [2, 20 * 30 + 12]"
       "shape (f_pos_embed f) = [20 * 30 + 12, 2, a_d_model ?a]"
       "shape (f_tgt f) = [1, 2 * 100, 1]"
    by (auto simp: input_tensor_def)
  from TransformerEncoder_forward_shape[OF tr f(2,3,4)] obtain img where
    img: "TransformerEncoder_forward (encoder tr) (f_src f) None (Some (f_mask f))
            (Some (f_pos_embed f)) = Inr img"
         "shape img = [20 * 30 + 12, 2, a_d_model ?a]" by blast
  have ne: "shape img ! 1 \<noteq> shape (f_tgt f) ! 1" using img(2) f(5) by simp
  note T = Transformer_forward_asserts_batch[OF tr, of "Some ex_src" "Some ex_mask" "Some ?q1"
      "Some ex_pos_embed" "Some ex_text_memory" "Some ex_text_attention_mask" None
      2 20 30 100 12 ex_src ex_mask ex_query_embed ex_pos_embed ex_text_memory
      ex_text_attention_mask]
  from T pq v
  have "\<exists>f e. Transformer_fuse tr (Some ex_src) (Some ex_mask) (Some ex_query_embed)
                  (Some ex_pos_embed) (Some ex_text_memory) (Some ex_text_attention_mask) = Inr f
            \<and> Transformer_encode tr f = Inr e
            \<and> shape (e_img_memory e) = [20 * 30 + 12, 2, a_d_model ?a]
            \<and> shape (e_text_memory e) = [12, 2, a_d_model ?a]
            \<and> shape (e_tgt e) = [100, 2, a_d_model ?a]
            \<and> Transformer_forward tr (Some ex_src) (Some ex_mask) (Some ex_query_embed)
                  (Some ex_pos_embed) (Some ex_text_memory) None (Some ex_text_attention_mask)
                = Transformer_decode tr e"
    by blast
  then have pass: "\<exists>f e. Transformer_fuse tr (Some ex_src) (Some ex_mask) (Some ex_query_embed)
                  (Some ex_pos_embed) (Some ex_text_memory) (Some ex_text_attention_mask) = Inr f
            \<and> Transformer_encode tr f = Inr e
            \<and> shape (e_img_memory e) = [612, 2, 256]
            \<and> shape (e_text_memory e) = [12, 2, 256]
            \<and> shape (e_tgt e) = [100, 2, 256]
            \<and> Transformer_forward tr (Some ex_src) (Some ex_mask) (Some ex_query_embed)
                  (Some ex_pos_embed) (Some ex_text_memory) None (Some ex_text_attention_mask)
                = Transformer_decode tr e"
    by simp
  from T f(1) img(1)
  have "if shape img ! 1 = shape (f_tgt f) ! 1
        then \<exists>e. Transformer_encode tr f = Inr e \<and> e_img_memory e = img
               \<and> shape (e_text_memory e) ! 1 = shape img ! 1
               \<and> shape (e_tgt e) ! 1 = shape img ! 1
               \<and> Transformer_forward tr (Some ex_src) (Some ex_mask) (Some ?q1)
                    (Some ex_pos_embed) (Some ex_text_memory) None
                    (Some ex_text_attention_mask) = Transformer_decode tr e
        else Transformer_encode tr f = Inl AssertionError
               \<and> Transformer_forward tr (Some ex_src) (Some ex_mask) (Some ?q1)
                    (Some ex_pos_embed) (Some ex_text_memory) None
                    (Some ex_text_attention_mask) = Inl AssertionError"
    by blast
  with ne have fire: "Transformer_encode tr f = Inl AssertionError
       \<and> Transformer_forward tr (Some ex_src) (Some ex_mask) (Some ?q1)
            (Some ex_pos_embed) (Some ex_text_memory) None
            (Some ex_text_attention_mask) = Inl AssertionError" by simp
  have "shape img ! 1 = 2" "shape (f_tgt f) ! 1 = 200" using img(2) f(5) by simp_all
  with fire show ?thesis using tr pass f(1) img(1) by blast
qed

text \<open>
  Claim C4 as stated fails: for the model of the repository's factory the fused memory
  has 612 positions and the target 100, and \<open>forward\<close> returns.
\<close>

theorem Transformer_forward_length_mismatch_returns:
  "\<exists>tr f e hs. mdetr_transformer = Inr tr
      \<and> Transformer_fuse tr (Some ex_src) (Some ex_mask) (Some ex_query_embed) (Some ex_pos_embed)
                (Some ex_text_memory) (Some ex_text_attention_mask) = Inr f
      \<and> Transformer_encode tr f = Inr e
      \<and> shape (e_img_memory e) ! 0 = 612 \<and> shape (e_tgt e) ! 0 = 100
      \<and> Transformer_forward tr (Some ex_src) (Some ex_mask) (Some ex_query_embed) (Some ex_pos_embed)
                (Some ex_text_memory) None (Some ex_text_attention_mask) = Inr hs
      \<and> Transformer_forward tr (Some ex_src) (Some ex_mask) (Some ex_query_embed) (Some ex_pos_embed)
                (Some ex_text_memory) None (Some ex_text_attention_mask) \<noteq> Inl AssertionError"
proof -
  let ?a = "default_args\<lparr>a_d_model := 256, a_nhead := 8, a_num_encoder_layers := 6,
       a_num_decoder_layers := 6, a_dim_feedforward := 2048, a_dropout := 0.1,
       a_return_intermediate_dec := True, a_pass_pos_and_query := True\<rparr>"
  obtain tr where tr: "Transformer_init ?a = Inr tr"
    using mdetr_transformer_ok by (auto simp: mdetr_transformer_def)
  have v: "valid_inputs (a_d_model ?a) 2 20 30 100 12 ex_src ex_mask ex_query_embed ex_pos_embed
          ex_text_memory ex_text_attention_mask" using ex_valid by simp
  have pq: "a_pass_pos_and_query ?a" and n: "a_return_intermediate_dec ?a \<longrightarrow> 0 < a_num_decoder_layers ?a"
    by simp_all
  from Transformer_forward_stages[OF tr pq v, of None] obtain f e where
    s: "Transformer_fuse tr (Some ex_src) (Some ex_mask) (Some ex_query_embed) (Some ex_pos_embed)
                (Some ex_text_memory) (Some ex_text_attention_mask) = Inr f"
      "Transformer_encode tr f = Inr e"
      "shape (e_img_memory e) = [20 * 30 + 12, 2, a_d_model ?a]"
      "shape (e_tgt e) = [100, 2, a_d_model ?a]" by blast
  from Transformer_forward_default_shape[OF tr pq v n, of None] obtain hs where
    "Transformer_forward tr (Some ex_src) (Some ex_mask) (Some ex_query_embed) (Some ex_pos_embed)
                (Some ex_text_memory) None (Some ex_text_attention_mask) = Inr hs" by blast
  then show ?thesis using tr s by (auto simp: mdetr_transformer_def)
qed

text \<open>
  The assertion does fail when axis 1 differs: a query table of one dimension is
  repeated into a target whose axis 1 is not the batch size.
\<close>

lemma assertion_fires_example:
  "(case Transformer_init (default_args\<lparr>a_d_model := 2, a_nhead := 1, a_num_encoder_layers := 1,
            a_num_decoder_layers := 1, a_dim_feedforward := 4\<rparr>) of
      Inl e \<Rightarrow> False
    | Inr tr \<Rightarrow>
        Transformer_forward tr (Some (input_tensor ''src'' [2, 2, 1, 1]))
          (Some (input_tensor ''mask'' [2, 1, 1])) (Some (input_tensor ''query_embed'' [3]))
          (Some (input_tensor ''pos_embed'' [2, 2, 1, 1]))
          (Some (input_tensor ''text_memory'' [1, 2, 2])) None
          (Some (input_tensor ''text_attention_mask'' [2, 1])) = Inl AssertionError)"
  by code_simp

end
